theory Spec2Isabelle
  imports Main "HOL-Library.AList" "HOL-Library.Option_ord" "HOL-Library.Word"
begin

section \<open>Errors\<close>

text \<open>
  The errors of the versioned collection, by their messages:
  \<open>IdMismatch\<close> (\<^verbatim>\<open>itemX._id._id must equal itemY._id._id\<close>, \<^verbatim>\<open>id mismatch\<close>),
  \<open>MissingPerspective\<close> (\<^verbatim>\<open>missing itemX._id._pe\<close>),
  \<open>MissingLcaPerspective\<close> (\<^verbatim>\<open>missing at least one perspective when fetching lca\<close>),
  \<open>RootPreceded\<close> (\<^verbatim>\<open>root preceded\<close>),
  \<open>NotSameDAG\<close> (\<^verbatim>\<open>provide heads from same DAG and perspective\<close>),
  \<open>NotExactlyOneHead\<close> (\<^verbatim>\<open>not exactly one head\<close>),
  \<open>TypeError\<close> (a property of \<^verbatim>\<open>undefined\<close> is read, or a value that is not a
  function is called),
  \<open>DifferentRoot\<close> (\<^verbatim>\<open>different root already in snapshot\<close>),
  \<open>MergeConflict\<close> (\<^verbatim>\<open>merge conflict\<close>),
  \<open>PreviousDocNotFound\<close> (\<^verbatim>\<open>previous version of doc not found\<close>),
  \<open>PreviousItemNotFound\<close> (\<^verbatim>\<open>previous version of item not found\<close>),
  \<open>PreviousNotADeletion\<close> (\<^verbatim>\<open>previous version of item not a deletion\<close>),
  \<open>InvalidOplogItem\<close> (a wrong operator or a missing \<^verbatim>\<open>o._id\<close>),
  \<open>Other\<close> (an error of a collaborator).
  The errors of the merge tree:
  \<open>VersionTooSmall\<close> (\<^verbatim>\<open>version too small\<close>),
  \<open>InvalidLocalHeader\<close> (the message of \<^verbatim>\<open>invalidLocalHeader\<close>),
  \<open>UnexpectedParent\<close> (\<^verbatim>\<open>did not expect local item to have a parent defined\<close>),
  \<open>AmbiguousLocalHeads\<close> (\<^verbatim>\<open>more than one non-deleted and non-conflicting head in local tree\<close>),
  \<open>PerspectiveMismatch\<close> (\<^verbatim>\<open>shead and stree perspective mismatch\<close>),
  \<open>MoreThanOneHeadInStage\<close> (\<^verbatim>\<open>more than one head in stage\<close>),
  \<open>InvalidItem\<close> and \<open>StoreError\<close> (errors of a tree).
  The error of the reader: \<open>OffsetNotFound\<close> (\<^verbatim>\<open>offset not found\<close>).
\<close>

datatype error =
    IdMismatch
  | MissingPerspective
  | MissingLcaPerspective string
  | RootPreceded
  | NotSameDAG
  | NotExactlyOneHead
  | TypeError
  | DifferentRoot
  | MergeConflict
  | PreviousDocNotFound
  | PreviousItemNotFound
  | PreviousNotADeletion
  | InvalidOplogItem
  | Other string
  | VersionTooSmall
  | InvalidLocalHeader
  | UnexpectedParent
  | AmbiguousLocalHeads
  | PerspectiveMismatch
  | MoreThanOneHeadInStage
  | InvalidItem
  | StoreError
  | OffsetNotFound

section \<open>JavaScript objects\<close>

text \<open>
  A plain JavaScript object is an association list in insertion order: an assignment
  \<^verbatim>\<open>o[k] = v\<close> overwrites in place or appends, \<^verbatim>\<open>delete o[k]\<close> removes the entry.
  A well-formed object has distinct keys. The keys used here are attribute names,
  version strings and ids. The key \<^verbatim>\<open>__proto__\<close> is special in JavaScript (an
  assignment to it sets the prototype and adds no entry); the objects here are taken
  not to have it.
\<close>

type_synonym 'v obj = "(string \<times> 'v) list"

text \<open>
  \<^verbatim>\<open>Object.keys\<close> and \<^verbatim>\<open>for (key in o)\<close> do not enumerate in insertion order
  throughout: the keys that are array indices (the decimal numerals without leading
  zero below \<^verbatim>\<open>2^32 - 1\<close>) come first, in ascending numeric order, and the other
  keys follow in insertion order.
\<close>

definition index_val :: "string \<Rightarrow> int" where
  "index_val s = fold (\<lambda>c n. 10 * n + (of_char c - 48)) s 0"

definition is_index :: "string \<Rightarrow> bool" where
  "is_index s \<longleftrightarrow>
     s \<noteq> [] \<and> list_all (\<lambda>c. c \<in> set ''0123456789'') s \<and> (s = ''0'' \<or> hd s \<noteq> CHR ''0'')
     \<and> index_val s < 4294967295"

definition for_in :: "'v obj \<Rightarrow> (string \<times> 'v) list" where
  "for_in ob =
     sort_key (\<lambda>e. index_val (fst e)) (filter (\<lambda>e. is_index (fst e)) ob)
     @ filter (\<lambda>e. \<not> is_index (fst e)) ob"

definition Object_keys :: "'v obj \<Rightarrow> string list" where
  "Object_keys ob = map fst (for_in ob)"

text \<open>
  \<^verbatim>\<open>Object.prototype.hasOwnProperty\<close> applied to an object and a key, and the names of
  the properties that every plain object inherits from \<^verbatim>\<open>Object.prototype\<close>.
\<close>

definition hasOwnProperty :: "'v obj \<Rightarrow> string \<Rightarrow> bool" where
  "hasOwnProperty ob k = (map_of ob k \<noteq> None)"

definition proto_names :: "string list" where
  "proto_names =
     [''constructor'', ''toString'', ''toLocaleString'', ''valueOf'', ''hasOwnProperty'',
      ''isPrototypeOf'', ''propertyIsEnumerable'', ''__defineGetter__'', ''__defineSetter__'',
      ''__lookupGetter__'', ''__lookupSetter__'', ''__proto__'']"

text \<open>
  The method call \<^verbatim>\<open>o.hasOwnProperty(k)\<close> on an object \<open>o\<close> that holds data. An own
  property named \<^verbatim>\<open>hasOwnProperty\<close> shadows the inherited method; its value is a
  piece of data and not a function, so the call throws a \<^verbatim>\<open>TypeError\<close>.
\<close>

definition call_hasOwnProperty :: "'v obj \<Rightarrow> string \<Rightarrow> error + bool" where
  "call_hasOwnProperty ob k =
     (if hasOwnProperty ob ''hasOwnProperty'' then Inl TypeError
      else Inr (hasOwnProperty ob k))"

text \<open>\<^verbatim>\<open>forEach\<close> with a callback that may throw: the first error ends the loop.\<close>

fun foldE :: "('a \<Rightarrow> 's \<Rightarrow> error + 's) \<Rightarrow> 'a list \<Rightarrow> 's \<Rightarrow> error + 's" where
  "foldE f [] s = Inr s"
| "foldE f (x # xs) s = (case f x s of Inl err \<Rightarrow> Inl err | Inr s' \<Rightarrow> foldE f xs s')"

text \<open>
  \<^verbatim>\<open>JSON.stringify(o[k])\<close>. The serializer \<open>str\<close> is a parameter; it returns
  \<open>None\<close> where \<^verbatim>\<open>JSON.stringify\<close> returns \<^verbatim>\<open>undefined\<close>, as it does for a
  missing attribute.
\<close>

definition stringify_at :: "('v \<Rightarrow> 'j option) \<Rightarrow> 'v obj \<Rightarrow> string \<Rightarrow> 'j option" where
  "stringify_at str ob k = (case map_of ob k of None \<Rightarrow> None | Some v \<Rightarrow> str v)"

section \<open>Three-way merge (\<^verbatim>\<open>VersionedCollection._threeWayMerge\<close>)\<close>

text \<open>The marks \<^verbatim>\<open>'+'\<close>, \<^verbatim>\<open>'~'\<close> and \<^verbatim>\<open>'-'\<close> of a diff.\<close>

datatype delta = Created | Changed | Removed

text \<open>
  What \<^verbatim>\<open>_threeWayMerge\<close> returns: the array of the conflicting keys or the merged
  item.
\<close>

datatype 'v merged = Conflicts "string list" | MergedItem "'v obj"

text \<open>
  The source tests the attributes with \<^verbatim>\<open>lca.hasOwnProperty(key)\<close>, that is with a
  method call on the items and on the diffs themselves.

  First loop, over \<^verbatim>\<open>keysItemA\<close>: copy the attribute into \<^verbatim>\<open>mergedItem\<close> and
  put added and changed keys into \<^verbatim>\<open>diffA\<close>. The state is \<open>(mergedItem, diffA)\<close>.
\<close>

definition diffA_step ::
  "('v \<Rightarrow> 'j option) \<Rightarrow> 'v obj \<Rightarrow> 'v obj \<Rightarrow> string \<Rightarrow> 'v obj \<times> delta obj
     \<Rightarrow> error + 'v obj \<times> delta obj"
where
  "diffA_step str itemA lca keyA st =
     (let mergedItem = (case map_of itemA keyA of
                          None \<Rightarrow> fst st
                        | Some v \<Rightarrow> AList.update keyA v (fst st))
      in case call_hasOwnProperty lca keyA of
           Inl err \<Rightarrow> Inl err
         | Inr inLca \<Rightarrow>
             Inr (mergedItem,
                  if inLca
                  then (if stringify_at str itemA keyA \<noteq> stringify_at str lca keyA
                        then AList.update keyA Changed (snd st) else snd st)
                  else AList.update keyA Created (snd st)))"

text \<open>Second loop, over \<^verbatim>\<open>keysLcaA\<close>: keys deleted in \<^verbatim>\<open>itemA\<close>.\<close>

definition removedA_step :: "'v obj \<Rightarrow> string \<Rightarrow> delta obj \<Rightarrow> error + delta obj" where
  "removedA_step itemA keyA diffA =
     (case call_hasOwnProperty itemA keyA of
        Inl err \<Rightarrow> Inl err
      | Inr inA \<Rightarrow> Inr (if \<not> inA then AList.update keyA Removed diffA else diffA))"

text \<open>Third loop, over \<^verbatim>\<open>keysItemB\<close>: added and changed keys of \<^verbatim>\<open>itemB\<close>.\<close>

definition diffB_step ::
  "('v \<Rightarrow> 'j option) \<Rightarrow> 'v obj \<Rightarrow> 'v obj \<Rightarrow> string \<Rightarrow> delta obj \<Rightarrow> error + delta obj"
where
  "diffB_step str itemB lcaB keyB diffB =
     (case call_hasOwnProperty lcaB keyB of
        Inl err \<Rightarrow> Inl err
      | Inr inLca \<Rightarrow>
          Inr (if inLca
               then (if stringify_at str itemB keyB \<noteq> stringify_at str lcaB keyB
                     then AList.update keyB Changed diffB else diffB)
               else AList.update keyB Created diffB))"

text \<open>
  Fourth loop, over \<^verbatim>\<open>keysLcaB\<close>: keys deleted in \<^verbatim>\<open>itemB\<close>, and keys created in
  \<^verbatim>\<open>diffA\<close> that were already in \<^verbatim>\<open>lcaB\<close>. The state is \<open>(diffB, conflicts)\<close>.
\<close>

definition removedB_step ::
  "'v obj \<Rightarrow> delta obj \<Rightarrow> string \<Rightarrow> delta obj \<times> string list
     \<Rightarrow> error + delta obj \<times> string list"
where
  "removedB_step itemB diffA keyB st =
     (case call_hasOwnProperty itemB keyB of
        Inl err \<Rightarrow> Inl err
      | Inr inB \<Rightarrow>
          (case call_hasOwnProperty diffA keyB of
             Inl err \<Rightarrow> Inl err
           | Inr inDiffA \<Rightarrow>
               Inr (if \<not> inB then AList.update keyB Removed (fst st) else fst st,
                    if inDiffA \<and> map_of diffA keyB = Some Created
                    then snd st @ [keyB] else snd st)))"

text \<open>
  Last loop, over \<^verbatim>\<open>Object.keys(diffB)\<close>: detect conflicts or apply the delta. The
  state is \<open>(mergedItem, conflicts)\<close>. \<^verbatim>\<open>itemA.hasOwnProperty(delta)\<close> is called
  only when the tests before it in the chain have failed and \<^verbatim>\<open>diffB[delta]\<close> is
  \<^verbatim>\<open>'+'\<close>. In the last branch \<^verbatim>\<open>diffB[delta]\<close> is \<^verbatim>\<open>'+'\<close> or \<^verbatim>\<open>'~'\<close>, so
  \<^verbatim>\<open>itemB\<close> has the attribute.
\<close>

definition detect_step ::
  "('v \<Rightarrow> 'j option) \<Rightarrow> 'v obj \<Rightarrow> 'v obj \<Rightarrow> delta obj \<Rightarrow> delta obj \<Rightarrow> string
     \<Rightarrow> 'v obj \<times> string list \<Rightarrow> error + 'v obj \<times> string list"
where
  "detect_step str itemA itemB diffA diffB d st =
     (let apply_delta = (case map_of itemB d of
                           None \<Rightarrow> st
                         | Some v \<Rightarrow> (AList.update d v (fst st), snd st))
      in case call_hasOwnProperty diffA d of
           Inl err \<Rightarrow> Inl err
         | Inr inDiffA \<Rightarrow>
             if inDiffA \<and> map_of diffA d \<noteq> map_of diffB d
             then Inr (fst st, snd st @ [d])
             else if map_of diffB d = Some Removed
             then Inr (AList.delete d (fst st), snd st)
             else if map_of diffA d = Some Changed
                     \<and> stringify_at str itemA d \<noteq> stringify_at str itemB d
             then Inr (fst st, snd st @ [d])
             else if map_of diffA d = Some Created
                     \<and> stringify_at str itemA d \<noteq> stringify_at str itemB d
             then Inr (fst st, snd st @ [d])
             else if map_of diffB d = Some Created
             then (case call_hasOwnProperty itemA d of
                     Inl err \<Rightarrow> Inl err
                   | Inr inA \<Rightarrow>
                       if inA \<and> stringify_at str itemA d \<noteq> stringify_at str itemB d
                       then Inr (fst st, snd st @ [d])
                       else Inr apply_delta)
             else Inr apply_delta)"

text \<open>
  The merge: an error where the source throws, else the conflicting keys or the merged
  item. \<open>lcaB\<close> is optional and defaults to \<open>lca\<close>.
\<close>

definition threeWayMerge ::
  "('v \<Rightarrow> 'j option) \<Rightarrow> 'v obj \<Rightarrow> 'v obj \<Rightarrow> 'v obj \<Rightarrow> 'v obj option
     \<Rightarrow> error + 'v merged"
where
  "threeWayMerge str itemA itemB lca lcaB_opt =
     (let lcaB = (case lcaB_opt of None \<Rightarrow> lca | Some l \<Rightarrow> l)
      in case foldE (diffA_step str itemA lca) (Object_keys itemA) ([], []) of
           Inl err \<Rightarrow> Inl err
         | Inr stA \<Rightarrow>
      case foldE (removedA_step itemA) (Object_keys lca) (snd stA) of
           Inl err \<Rightarrow> Inl err
         | Inr diffA \<Rightarrow>
      case foldE (diffB_step str itemB lcaB) (Object_keys itemB) [] of
           Inl err \<Rightarrow> Inl err
         | Inr diffB0 \<Rightarrow>
      case foldE (removedB_step itemB diffA) (Object_keys lcaB) (diffB0, []) of
           Inl err \<Rightarrow> Inl err
         | Inr stB \<Rightarrow>
      case foldE (detect_step str itemA itemB diffA (fst stB)) (Object_keys (fst stB))
             (fst stA, snd stB) of
           Inl err \<Rightarrow> Inl err
         | Inr res \<Rightarrow>
             if snd res \<noteq> [] then Inr (Conflicts (snd res)) else Inr (MergedItem (fst res)))"

subsection \<open>The merge of items without an attribute \<^verbatim>\<open>hasOwnProperty\<close>\<close>

text \<open>
  On items without an attribute named \<^verbatim>\<open>hasOwnProperty\<close> no method call throws.
  The loops then are plain folds with the following steps; they serve to state and
  prove what the merge does on such items.
\<close>

definition plain_diffA ::
  "('v \<Rightarrow> 'j option) \<Rightarrow> 'v obj \<Rightarrow> 'v obj \<Rightarrow> string \<Rightarrow> 'v obj \<times> delta obj \<Rightarrow> 'v obj \<times> delta obj"
where
  "plain_diffA str itemA lca keyA st =
     ((case map_of itemA keyA of None \<Rightarrow> fst st | Some v \<Rightarrow> AList.update keyA v (fst st)),
      (if hasOwnProperty lca keyA
       then (if stringify_at str itemA keyA \<noteq> stringify_at str lca keyA
             then AList.update keyA Changed (snd st) else snd st)
       else AList.update keyA Created (snd st)))"

definition plain_removedA :: "'v obj \<Rightarrow> string \<Rightarrow> delta obj \<Rightarrow> delta obj" where
  "plain_removedA itemA keyA diffA =
     (if \<not> hasOwnProperty itemA keyA then AList.update keyA Removed diffA else diffA)"

definition plain_diffB ::
  "('v \<Rightarrow> 'j option) \<Rightarrow> 'v obj \<Rightarrow> 'v obj \<Rightarrow> string \<Rightarrow> delta obj \<Rightarrow> delta obj"
where
  "plain_diffB str itemB lcaB keyB diffB =
     (if hasOwnProperty lcaB keyB
      then (if stringify_at str itemB keyB \<noteq> stringify_at str lcaB keyB
            then AList.update keyB Changed diffB else diffB)
      else AList.update keyB Created diffB)"

definition plain_removedB ::
  "'v obj \<Rightarrow> delta obj \<Rightarrow> string \<Rightarrow> delta obj \<times> string list \<Rightarrow> delta obj \<times> string list"
where
  "plain_removedB itemB diffA keyB st =
     ((if \<not> hasOwnProperty itemB keyB then AList.update keyB Removed (fst st) else fst st),
      (if map_of diffA keyB = Some Created then snd st @ [keyB] else snd st))"

definition plain_detect ::
  "('v \<Rightarrow> 'j option) \<Rightarrow> 'v obj \<Rightarrow> 'v obj \<Rightarrow> delta obj \<Rightarrow> delta obj \<Rightarrow> string
     \<Rightarrow> 'v obj \<times> string list \<Rightarrow> 'v obj \<times> string list"
where
  "plain_detect str itemA itemB diffA diffB d st =
     (if map_of diffA d \<noteq> None \<and> map_of diffA d \<noteq> map_of diffB d
      then (fst st, snd st @ [d])
      else if map_of diffB d = Some Removed
      then (AList.delete d (fst st), snd st)
      else if map_of diffA d = Some Changed
              \<and> stringify_at str itemA d \<noteq> stringify_at str itemB d
      then (fst st, snd st @ [d])
      else if map_of diffA d = Some Created
              \<and> stringify_at str itemA d \<noteq> stringify_at str itemB d
      then (fst st, snd st @ [d])
      else if map_of diffB d = Some Created \<and> hasOwnProperty itemA d
              \<and> stringify_at str itemA d \<noteq> stringify_at str itemB d
      then (fst st, snd st @ [d])
      else (case map_of itemB d of
              None \<Rightarrow> st
            | Some v \<Rightarrow> (AList.update d v (fst st), snd st)))"

definition plain_merge ::
  "('v \<Rightarrow> 'j option) \<Rightarrow> 'v obj \<Rightarrow> 'v obj \<Rightarrow> 'v obj \<Rightarrow> 'v obj option \<Rightarrow> 'v merged"
where
  "plain_merge str itemA itemB lca lcaB_opt =
     (let lcaB = (case lcaB_opt of None \<Rightarrow> lca | Some l \<Rightarrow> l);
          stA = fold (plain_diffA str itemA lca) (Object_keys itemA) ([], []);
          diffA = fold (plain_removedA itemA) (Object_keys lca) (snd stA);
          diffB0 = fold (plain_diffB str itemB lcaB) (Object_keys itemB) [];
          stB = fold (plain_removedB itemB diffA) (Object_keys lcaB) (diffB0, []);
          diffB = fst stB;
          res = fold (plain_detect str itemA itemB diffA diffB) (Object_keys diffB)
                  (fst stA, snd stB)
      in if snd res \<noteq> [] then Conflicts (snd res) else MergedItem (fst res))"

section \<open>Bytes and base64\<close>

text \<open>
  \<^verbatim>\<open>Buffer.toString('base64')\<close>: three bytes give four characters of the standard
  alphabet, six bits each; a last group of one or two bytes is padded with \<^verbatim>\<open>=\<close>.
\<close>

type_synonym byte = "8 word"

definition b64chars :: string where
  "b64chars = ''ABCDEFGHIJKLMNOPQRSTUVWXYZabcdefghijklmnopqrstuvwxyz0123456789+/''"

fun base64 :: "byte list \<Rightarrow> string" where
  "base64 [] = []"
| "base64 [a] =
     [b64chars ! (unat a div 4), b64chars ! (unat a mod 4 * 16), CHR ''='', CHR ''='']"
| "base64 [a, b] =
     [b64chars ! (unat a div 4), b64chars ! (unat a mod 4 * 16 + unat b div 16),
      b64chars ! (unat b mod 16 * 4), CHR ''='']"
| "base64 (a # b # c # rest) =
     [b64chars ! (unat a div 4), b64chars ! (unat a mod 4 * 16 + unat b div 16),
      b64chars ! (unat b mod 16 * 4 + unat c div 64), b64chars ! (unat c mod 64)]
     @ base64 rest"

section \<open>Items of the versioned collection\<close>

text \<open>
  A DAG item of \<^verbatim>\<open>versioned_collection.js\<close>: the fields of \<^verbatim>\<open>_id\<close>
  (\<^verbatim>\<open>_id\<close>, \<^verbatim>\<open>_v\<close>, \<^verbatim>\<open>_pe\<close>, \<^verbatim>\<open>_pa\<close>, \<^verbatim>\<open>_d\<close>, \<^verbatim>\<open>_lo\<close>, \<^verbatim>\<open>_i\<close>), the
  fields of \<^verbatim>\<open>_m3\<close> (\<^verbatim>\<open>_ack\<close>, \<^verbatim>\<open>_c\<close>, \<^verbatim>\<open>_op\<close>) and the remaining attributes.
  A missing or \<^verbatim>\<open>null\<close> version is the empty string (the source only tests
  versions for truthiness); a missing \<^verbatim>\<open>_i\<close> is \<open>None\<close>, which sorts before
  every number.
\<close>

record 'v item =
  i_id :: string
  i_v :: string
  i_pe :: string
  i_pa :: "string list"
  i_d :: bool
  i_lo :: bool
  i_i :: "nat option"
  m3_ack :: bool
  m3_c :: bool
  m3_op :: nat
  body :: "'v obj"

section \<open>Lowest common ancestors (\<^verbatim>\<open>_findLCAs\<close>, \<^verbatim>\<open>_intersect\<close>)\<close>



text \<open>
  The state of the walk: the open heads of both branches (version to perspective), the
  versions visited on each branch, the versions marked in \<^verbatim>\<open>cas\<close> and the result
  list \<^verbatim>\<open>lcas\<close>.
\<close>

record lca_state =
  headsX :: "string obj"
  headsY :: "string obj"
  ancestorsX :: "string list"
  ancestorsY :: "string list"
  cas :: "string list"
  lcas :: "string list"


definition trackY :: "string \<Rightarrow> 'v item \<Rightarrow> lca_state \<Rightarrow> lca_state" where
  "trackY perspectiveY item st =
     (if map_of (headsY st) (i_v item) = Some (i_pe item)
      then let st1 = st\<lparr> headsY := fold (\<lambda>p h. AList.update p perspectiveY h) (i_pa item)
                                      (AList.delete (i_v item) (headsY st)),
                           ancestorsY := i_v item # ancestorsY st \<rparr>
           in if i_v item \<in> set (ancestorsX st1)
              then st1\<lparr> lcas := (if i_v item \<notin> set (cas st1)
                                   then lcas st1 @ [i_v item] else lcas st1),
                         cas := cas st1 @ i_pa item \<rparr>
              else st1
      else st)"



text \<open>
  The cursor: the items of the id in the perspectives of x and y, in reverse natural
  order, or by descending \<^verbatim>\<open>_id._i\<close> when both are of the local perspective.
\<close>

definition find_sorted :: "string \<Rightarrow> string \<Rightarrow> string list \<Rightarrow> 'v item list \<Rightarrow> 'v item list" where
  "find_sorted localPerspective id' perspectives coll =
     (let found = filter (\<lambda>x. i_id x = id' \<and> i_pe x \<in> set perspectives) coll
      in if perspectives = [localPerspective]
         then rev (sort_key i_i found)
         else rev found)"


section \<open>Writer pipeline of the versioned collection\<close>

subsection \<open>Ancestry check (\<^verbatim>\<open>_checkAncestry\<close>)\<close>





subsection \<open>Heads of a batch (\<^verbatim>\<open>_branchHeads\<close>, \<^verbatim>\<open>_markConflicts\<close>, \<^verbatim>\<open>_ensureOneHead\<close>)\<close>

text \<open>
  \<^verbatim>\<open>_branchHeads\<close> keeps two objects: \<^verbatim>\<open>heads\<close> maps a version to its item, and
  \<^verbatim>\<open>deleted\<close> maps the id of the batch to its last deletion. The state of the second
  loop is \<open>(heads, deleted)\<close>.

  For a parent \<open>p\<close> the source removes \<^verbatim>\<open>heads[p]\<close> and tests
  \<^verbatim>\<open>deleted[id] && deleted[id]._id._v === p\<close>. Without an own entry the read
  \<^verbatim>\<open>deleted[id]\<close> goes to \<^verbatim>\<open>Object.prototype\<close>: for an id that names one of its
  properties the value is truthy and has no \<^verbatim>\<open>_id\<close>, so reading \<^verbatim>\<open>_v\<close> throws.
\<close>

definition branchHeads_parent ::
  "string \<Rightarrow> string \<Rightarrow> 'v item obj \<times> 'v item obj \<Rightarrow> error + 'v item obj \<times> 'v item obj"
where
  "branchHeads_parent id' p st =
     (case map_of (snd st) id' of
        Some del \<Rightarrow>
          Inr (AList.delete p (fst st),
               if i_v del = p then AList.delete id' (snd st) else snd st)
      | None \<Rightarrow>
          if id' \<in> set proto_names then Inl TypeError
          else Inr (AList.delete p (fst st), snd st))"

definition branchHeads_step ::
  "'v item \<Rightarrow> 'v item obj \<times> 'v item obj \<Rightarrow> error + 'v item obj \<times> 'v item obj"
where
  "branchHeads_step item st =
     (let st1 = (if i_d item
                 then (AList.delete (i_v item) (fst st), AList.update (i_id item) item (snd st))
                 else st)
      in if i_pa item = [] then Inr (fst st1, AList.delete (i_id item) (snd st1))
         else foldE (branchHeads_parent (i_id item)) (i_pa item) st1)"

text \<open>
  The loop \<^verbatim>\<open>for (key in o) { if (o.hasOwnProperty(key)) { values.push(o[key]); } }\<close>:
  the values in the order of enumeration. The test is a method call on \<open>o\<close>.
\<close>

definition own_values :: "'v obj \<Rightarrow> error + 'v list" where
  "own_values ob =
     foldE (\<lambda>e values. case call_hasOwnProperty ob (fst e) of
                          Inl err \<Rightarrow> Inl err
                        | Inr own \<Rightarrow> Inr (if own then values @ [snd e] else values))
       (for_in ob) []"

text \<open>
  All items must have the id of the first one. The result lists the heads as the
  enumeration of \<^verbatim>\<open>heads\<close> yields them, then the deletion if asked for.
\<close>

definition branchHeads :: "'v item list \<Rightarrow> bool \<Rightarrow> bool \<Rightarrow> error + 'v item list" where
  "branchHeads items includeDeleted includeConflicted =
     (if items = [] then Inr []
      else if \<not> list_all (\<lambda>item. i_id item = i_id (hd items)) items then Inl IdMismatch
      else
        let heads0 = fold (\<lambda>item heads.
                             if \<not> m3_c item \<or> includeConflicted
                             then AList.update (i_v item) item heads else heads) items []
        in case foldE branchHeads_step items (heads0, []) of
             Inl err \<Rightarrow> Inl err
           | Inr st \<Rightarrow>
               (case own_values (fst st) of
                  Inl err \<Rightarrow> Inl err
                | Inr values \<Rightarrow>
                    if includeDeleted
                    then (case own_values (snd st) of
                            Inl err \<Rightarrow> Inl err
                          | Inr dels \<Rightarrow> Inr (values @ dels))
                    else Inr values))"

text \<open>
  \<^verbatim>\<open>_markConflicts\<close>: the loop state is \<open>(first, nonConflictedHeads, conflictedHeads)\<close>.
  Without items the callback gets no result (\<open>Inr None\<close>).
\<close>

definition markConflicts_step ::
  "'v item \<Rightarrow> bool \<times> 'v item list \<times> 'v item list \<Rightarrow> bool \<times> 'v item list \<times> 'v item list"
where
  "markConflicts_step item st =
     (case st of (first, nonConflictedHeads, conflictedHeads) \<Rightarrow>
        if first then (False, nonConflictedHeads @ [item], conflictedHeads)
        else (False, nonConflictedHeads, conflictedHeads @ [item\<lparr> m3_c := True \<rparr>]))"

definition markConflicts :: "'v item list \<Rightarrow> error + ('v item list \<times> 'v item list) option" where
  "markConflicts items =
     (if items = [] then Inr None
      else if \<not> list_all (\<lambda>item. i_pe item = i_pe (hd items) \<and> i_id item = i_id (hd items)) items
      then Inl NotSameDAG
      else case fold markConflicts_step items (True, [], []) of
             (first, nonConflictedHeads, conflictedHeads) \<Rightarrow>
               Inr (Some (nonConflictedHeads, conflictedHeads)))"

text \<open>
  \<^verbatim>\<open>_ensureOneHead\<close>: the heads of the batch including a deletion, excluding conflicts.
  When \<^verbatim>\<open>_markConflicts\<close> calls back without a result, reading the length of
  \<^verbatim>\<open>nonConflictedNewHeads\<close> throws a \<^verbatim>\<open>TypeError\<close>.
\<close>

definition ensureOneHead :: "'v item list \<Rightarrow> error + 'v item list option" where
  "ensureOneHead items =
     (if items = [] then Inr None
      else case branchHeads items True False of
             Inl err \<Rightarrow> Inl err
           | Inr newHeads \<Rightarrow>
               (case markConflicts newHeads of
                  Inl err \<Rightarrow> Inl err
                | Inr None \<Rightarrow> Inl TypeError
                | Inr (Some (nonConflictedNewHeads, conflictedHeads)) \<Rightarrow>
                    if length nonConflictedNewHeads \<noteq> 1 then Inl NotExactlyOneHead
                    else Inr (Some nonConflictedNewHeads)))"

subsection \<open>Auxiliary notions for the ancestry check\<close>



subsection \<open>The heads of a batch, described from the batch\<close>







subsection \<open>Random versions (\<^verbatim>\<open>_generateRandomVersion\<close>, \<^verbatim>\<open>_ensureVersion\<close>)\<close>

text \<open>
  \<^verbatim>\<open>crypto.pseudoRandomBytes(size || 6)\<close> is the input \<open>rnd\<close>: the bytes the
  generator returns for the requested size.
\<close>

definition generateRandomVersion :: "(nat \<Rightarrow> byte list) \<Rightarrow> nat option \<Rightarrow> string" where
  "generateRandomVersion rnd size' =
     base64 (rnd (case size' of None \<Rightarrow> 6 | Some n \<Rightarrow> if n = 0 then 6 else n))"


subsection \<open>Merging new heads with the local head (\<^verbatim>\<open>_mergeNewHeads\<close>)\<close>

text \<open>
  \<^verbatim>\<open>findOne(selector, { sort: { '_id._i': -1 } })\<close>: the selected item with the greatest
  \<^verbatim>\<open>_id._i\<close>.
\<close>

definition findOne_last :: "('v item \<Rightarrow> bool) \<Rightarrow> 'v item list \<Rightarrow> 'v item option" where
  "findOne_last selector coll =
     (case rev (sort_key i_i (filter selector coll)) of [] \<Rightarrow> None | x # _ \<Rightarrow> Some x)"





subsection \<open>Oplog items (\<^verbatim>\<open>versionDoc\<close>, \<^verbatim>\<open>_applyOplogDeleteItem\<close>, \<^verbatim>\<open>_applyOplogUpdateFullDoc\<close>)\<close>

text \<open>
  An oplog item: the operator, the id \<^verbatim>\<open>o._id\<close> (the empty string if it is missing),
  the other attributes of \<^verbatim>\<open>o\<close> and the timestamp.
\<close>

record 'v oplog_item =
  op_name :: string
  o_id :: string
  o_doc :: "'v obj"
  op_ts :: nat

text \<open>
  The settings of a versioned collection that the functions below read: the name of the
  local perspective and of the version attribute, the truthiness of an attribute value
  and its reading as a version string.
\<close>

record 'v settings =
  cfg_localPerspective :: string
  cfg_versionKey :: string
  cfg_truthy :: "'v \<Rightarrow> bool"
  cfg_as_version :: "'v \<Rightarrow> string"

text \<open>
  \<^verbatim>\<open>versionDoc(doc, keepVersion)\<close>: a shallow clone of the attributes under a new
  \<^verbatim>\<open>_id\<close> of the local perspective, without parents, marked as locally created, with
  the document's version or a random one. The callers set \<^verbatim>\<open>_m3\<close> afterwards.
\<close>

definition versionDoc ::
  "'v settings \<Rightarrow> (nat \<Rightarrow> byte list) \<Rightarrow> string \<Rightarrow> 'v obj \<Rightarrow> bool \<Rightarrow> 'v item"
where
  "versionDoc cfg rnd doc_id doc keepVersion =
     \<lparr> i_id = doc_id,
       i_v = (if keepVersion
              then (case map_of doc (cfg_versionKey cfg) of None \<Rightarrow> [] | Some x \<Rightarrow> cfg_as_version cfg x)
              else generateRandomVersion rnd None),
       i_pe = cfg_localPerspective cfg,
       i_pa = [],
       i_d = False,
       i_lo = True,
       i_i = None,
       m3_ack = False,
       m3_c = False,
       m3_op = 0,
       body = (case map_of doc (cfg_versionKey cfg) of
                 None \<Rightarrow> doc
               | Some x \<Rightarrow> if cfg_truthy cfg x then AList.delete (cfg_versionKey cfg) doc else doc) \<rparr>"

definition findLastAckdOrLocallyCreated :: "'v settings \<Rightarrow> 'v item list \<Rightarrow> string \<Rightarrow> 'v item option" where
  "findLastAckdOrLocallyCreated cfg snapshot id' =
     findOne_last (\<lambda>x. i_id x = id' \<and> i_pe x = cfg_localPerspective cfg \<and> (i_lo x \<or> m3_ack x)) snapshot"

text \<open>
  \<^verbatim>\<open>_applyOplogDeleteItem\<close>. \<open>ensureAllInDAG\<close> stands for the writer pipeline run on the
  new item: it returns its error, if any. The result is the new item as it was created.
\<close>

definition applyOplogDeleteItem ::
  "'v settings \<Rightarrow> (nat \<Rightarrow> byte list) \<Rightarrow> 'v item list \<Rightarrow> ('v item \<Rightarrow> error option)
     \<Rightarrow> 'v oplog_item \<Rightarrow> error + 'v item"
where
  "applyOplogDeleteItem cfg rnd snapshot ensureAllInDAG oplogItem =
     (if op_name oplogItem \<noteq> ''d'' then Inl InvalidOplogItem
      else if o_id oplogItem = [] then Inl InvalidOplogItem
      else case findLastAckdOrLocallyCreated cfg snapshot (o_id oplogItem) of
             None \<Rightarrow> Inl PreviousDocNotFound
           | Some p \<Rightarrow>
               let newObj = (versionDoc cfg rnd (o_id oplogItem) (body p) False)
                              \<lparr> i_pa := [i_v p], i_d := True,
                                m3_ack := True, m3_c := False, m3_op := op_ts oplogItem \<rparr>
               in case ensureAllInDAG newObj of
                    Some err \<Rightarrow> Inl err
                  | None \<Rightarrow> Inr newObj)"

text \<open>
  \<^verbatim>\<open>saveCollectionItem(item, pa, oplogItem)\<close> as called for an insert without a
  previous version.
\<close>

definition saveCollectionItem ::
  "'v settings \<Rightarrow> (nat \<Rightarrow> byte list) \<Rightarrow> ('v item \<Rightarrow> error option)
     \<Rightarrow> string \<Rightarrow> 'v obj \<Rightarrow> string list \<Rightarrow> nat \<Rightarrow> error + 'v item"
where
  "saveCollectionItem cfg rnd ensureAllInDAG doc_id doc pa ts =
     (let keep = (case map_of doc (cfg_versionKey cfg) of None \<Rightarrow> False | Some x \<Rightarrow> cfg_truthy cfg x);
          newObj = (versionDoc cfg rnd doc_id doc keep)
                     \<lparr> i_pa := pa, m3_ack := False, m3_c := False, m3_op := ts \<rparr>
      in case ensureAllInDAG newObj of
           Some err \<Rightarrow> Inl err
         | None \<Rightarrow> Inr newObj)"

text \<open>
  \<^verbatim>\<open>_applyOplogUpdateFullDoc\<close>, for inserts and updates by full document. If the
  document with its version is in the DAG and equal (\<open>compare\<close> stands for
  \<^verbatim>\<open>compareDAGItemWithCollectionItem\<close>), that item is acknowledged (\<open>setAckd\<close> stands
  for the update of the store and returns its error, if any). Otherwise a new version is
  created.
\<close>

definition applyOplogUpdateFullDoc ::
  "'v settings \<Rightarrow> (nat \<Rightarrow> byte list) \<Rightarrow> 'v item list \<Rightarrow> ('v item \<Rightarrow> error option)
     \<Rightarrow> ('v item \<Rightarrow> 'v obj \<Rightarrow> bool) \<Rightarrow> ('v item \<Rightarrow> error option)
     \<Rightarrow> 'v oplog_item \<Rightarrow> error + 'v item"
where
  "applyOplogUpdateFullDoc cfg rnd snapshot ensureAllInDAG compare setAckd oplogItem =
     (if op_name oplogItem \<noteq> ''u'' \<and> op_name oplogItem \<noteq> ''i'' then Inl InvalidOplogItem
      else if o_id oplogItem = [] then Inl InvalidOplogItem
      else
        let create =
              (case findLastAckdOrLocallyCreated cfg snapshot (o_id oplogItem) of
                 None \<Rightarrow>
                   if op_name oplogItem = ''i''
                   then saveCollectionItem cfg rnd ensureAllInDAG (o_id oplogItem) (o_doc oplogItem)
                          [] (op_ts oplogItem)
                   else Inl PreviousItemNotFound
               | Some item2 \<Rightarrow>
                   if op_name oplogItem = ''i'' \<and> \<not> i_d item2 then Inl PreviousNotADeletion
                   else
                     let newObj = (versionDoc cfg rnd (o_id oplogItem) (o_doc oplogItem) False)
                                    \<lparr> i_pa := [i_v item2],
                                      m3_ack := False, m3_c := False, m3_op := op_ts oplogItem \<rparr>
                     in case ensureAllInDAG newObj of
                          Some err \<Rightarrow> Inl err
                        | None \<Rightarrow> Inr newObj)
        in case find (\<lambda>x. i_id x = o_id oplogItem
                          \<and> i_v x = (case map_of (o_doc oplogItem) (cfg_versionKey cfg) of
                                       None \<Rightarrow> [] | Some x \<Rightarrow> cfg_as_version cfg x)
                          \<and> i_pe x = cfg_localPerspective cfg) snapshot of
             Some item \<Rightarrow>
               if compare item (o_doc oplogItem)
               then (case setAckd item of
                       Some err \<Rightarrow> Inl err
                     | None \<Rightarrow> Inr (item\<lparr> m3_ack := True, m3_op := op_ts oplogItem \<rparr>))
               else create
           | None \<Rightarrow> create)"

section \<open>Merge tree (\<^verbatim>\<open>merge_tree.js\<close>)\<close>

text \<open>
  An item of a tree: the header fields \<^verbatim>\<open>h.id\<close>, \<^verbatim>\<open>h.v\<close> (the empty string if
  there is no version), \<^verbatim>\<open>h.pa\<close> and \<^verbatim>\<open>h.pe\<close> (\<open>None\<close> if missing), \<^verbatim>\<open>h.d\<close>,
  \<^verbatim>\<open>h.c\<close>, \<^verbatim>\<open>h.i\<close>, the meta info \<^verbatim>\<open>m\<close> and the body \<^verbatim>\<open>b\<close> (\<open>None\<close> if missing
  or falsy).
\<close>

record ('m, 'b) mitem =
  h_id :: string
  h_v :: string
  h_pa :: "string list option"
  h_pe :: "string option"
  h_d :: bool
  h_c :: bool
  h_i :: "nat option"
  meta :: "'m option"
  doc :: "'b option"

subsection \<open>Content based versions (\<^verbatim>\<open>MergeTree.versionContent\<close>)\<close>

text \<open>
  The hash function \<open>sha256\<close> (\<^verbatim>\<open>crypto.createHash('sha256')\<close>) and the serializer
  \<open>serialize\<close> (\<^verbatim>\<open>BSON.serialize\<close>) are parameters. Without \<open>vSize\<close> (or with 0) the
  size is 6/8 of the length of the first parent; reading the first parent of an item
  without parents throws. \<^verbatim>\<open>toString('base64', 0, vSize)\<close> reads up to the whole
  number of bytes below \<open>vSize\<close>, at most the digest.
\<close>

definition versionContent ::
  "(byte list \<Rightarrow> byte list) \<Rightarrow> (('m, 'b) mitem \<Rightarrow> byte list) \<Rightarrow> ('m, 'b) mitem \<Rightarrow> nat option
     \<Rightarrow> error + string"
where
  "versionContent sha256 serialize item vSize =
     (case (case vSize of None \<Rightarrow> None | Some n \<Rightarrow> if n = 0 then None else Some n) of
        Some n \<Rightarrow> Inr (base64 (take n (sha256 (serialize item))))
      | None \<Rightarrow>
          (case h_pa item of
             None \<Rightarrow> Inl TypeError
           | Some [] \<Rightarrow> Inl TypeError
           | Some (p # _) \<Rightarrow>
               if length p * 6 < 8 then Inl VersionTooSmall
               else Inr (base64 (take (length p * 6 div 8) (sha256 (serialize item))))))"

subsection \<open>Trees\<close>

text \<open>
  Modelled from the spec: \<^verbatim>\<open>tree.js\<close> is not among the sources. A tree is the list of
  its items in insertion order. \<open>getByVersion\<close> looks a version up. A head is a version
  without children in the DAG of its id; \<open>getHeads\<close> enumerates the heads of an id,
  optionally without deletions and conflicts. \<open>tree_write\<close> validates the header
  (unless validation is skipped, as for the stage tree), is a no-op if the id and
  version exist with an equivalent header and body, and otherwise appends the item with
  the next insertion index; if the id then has more than one head that is neither
  deleted nor in conflict, all but the first are stored with the conflict flag. The
  spec leaves open what a write of an existing version with another content does: here
  it fails. \<open>tree_del\<close> removes the entry of an item.
  \<open>iterateInsertionOrder\<close> yields the items, of one id if given, from \<open>first\<close> to
  \<open>last\<close>. \<open>lastByPerspective\<close> is the version of the last item that came from a
  perspective.
\<close>

type_synonym ('m, 'b) tree = "('m, 'b) mitem list"

definition getByVersion :: "('m, 'b) tree \<Rightarrow> string \<Rightarrow> ('m, 'b) mitem option" where
  "getByVersion tree v = find (\<lambda>x. h_v x = v) tree"

definition is_head :: "('m, 'b) tree \<Rightarrow> ('m, 'b) mitem \<Rightarrow> bool" where
  "is_head tree x =
     (\<not> list_ex (\<lambda>y. h_id y = h_id x
                       \<and> (case h_pa y of None \<Rightarrow> False | Some pa \<Rightarrow> h_v x \<in> set pa)) tree)"

definition getHeads :: "('m, 'b) tree \<Rightarrow> string \<Rightarrow> bool \<Rightarrow> bool \<Rightarrow> ('m, 'b) mitem list" where
  "getHeads tree id' skipDeletes skipConflicts =
     filter (\<lambda>x. h_id x = id' \<and> is_head tree x
                 \<and> \<not> (skipDeletes \<and> h_d x) \<and> \<not> (skipConflicts \<and> h_c x)) tree"

definition valid_header :: "('m, 'b) mitem \<Rightarrow> bool" where
  "valid_header x = (h_id x \<noteq> [] \<and> h_v x \<noteq> [] \<and> h_pa x \<noteq> None)"

definition flag_later_heads :: "string \<Rightarrow> ('m, 'b) tree \<Rightarrow> ('m, 'b) tree" where
  "flag_later_heads id' tree =
     map (\<lambda>x. if x \<in> set (drop 1 (getHeads tree id' True True)) then x\<lparr> h_c := True \<rparr> else x) tree"

definition tree_write :: "bool \<Rightarrow> ('m, 'b) mitem \<Rightarrow> ('m, 'b) tree \<Rightarrow> error + ('m, 'b) tree" where
  "tree_write skipValidation item tree =
     (if \<not> skipValidation \<and> \<not> valid_header item then Inl InvalidItem
      else case find (\<lambda>x. h_id x = h_id item \<and> h_v x = h_v item) tree of
             Some existing \<Rightarrow>
               if existing\<lparr> h_i := None \<rparr> = item\<lparr> h_i := None \<rparr> then Inr tree
               else Inl StoreError
           | None \<Rightarrow>
               Inr (flag_later_heads (h_id item)
                      (tree @ [item\<lparr> h_i := Some (Suc (length tree)) \<rparr>])))"

definition tree_del :: "('m, 'b) mitem \<Rightarrow> ('m, 'b) tree \<Rightarrow> ('m, 'b) tree" where
  "tree_del item tree = filter (\<lambda>x. \<not> (h_id x = h_id item \<and> h_v x = h_v item)) tree"

definition from_first :: "string option \<Rightarrow> bool \<Rightarrow> ('m, 'b) mitem list \<Rightarrow> ('m, 'b) mitem list" where
  "from_first first excludeFirst items =
     (case first of
        None \<Rightarrow> items
      | Some v \<Rightarrow>
          (case dropWhile (\<lambda>x. h_v x \<noteq> v) items of
             [] \<Rightarrow> []
           | x # rest \<Rightarrow> if excludeFirst then rest else x # rest))"

definition up_to_last :: "string option \<Rightarrow> bool \<Rightarrow> ('m, 'b) mitem list \<Rightarrow> ('m, 'b) mitem list" where
  "up_to_last last' excludeLast items =
     (case last' of
        None \<Rightarrow> items
      | Some v \<Rightarrow>
          takeWhile (\<lambda>x. h_v x \<noteq> v) items
          @ (if excludeLast then [] else take 1 (dropWhile (\<lambda>x. h_v x \<noteq> v) items)))"

definition iterateInsertionOrder ::
  "('m, 'b) tree \<Rightarrow> string option \<Rightarrow> string option \<Rightarrow> bool \<Rightarrow> string option \<Rightarrow> bool
     \<Rightarrow> ('m, 'b) mitem list"
where
  "iterateInsertionOrder tree id' first excludeFirst last' excludeLast =
     up_to_last last' excludeLast
       (from_first first excludeFirst
          (case id' of None \<Rightarrow> tree | Some i \<Rightarrow> filter (\<lambda>x. h_id x = i) tree))"

definition lastByPerspective :: "('m, 'b) tree \<Rightarrow> string \<Rightarrow> string option" where
  "lastByPerspective tree pe =
     (case rev (filter (\<lambda>x. h_pe x = Some pe) tree) of [] \<Rightarrow> None | x # _ \<Rightarrow> Some (h_v x))"

subsection \<open>Merging a source tree (\<^verbatim>\<open>_mergeTrees\<close>, \<^verbatim>\<open>mergeWithLocal\<close>)\<close>


text \<open>
  The state of a merge tree: the local tree, the stage tree, the trees of the
  perspectives by name, and the calls of the merge handler (the merge and the previous
  head) in their order.
\<close>

record ('m, 'b) merge_tree =
  local_tree :: "('m, 'b) tree"
  stage_tree :: "('m, 'b) tree"
  pe_trees :: "('m, 'b) tree obj"
  handler_calls :: "(('m, 'b) mitem \<times> ('m, 'b) mitem option) list"





subsection \<open>Local writes and confirmations (\<^verbatim>\<open>_copyTo\<close>, \<^verbatim>\<open>createLocalWriteStream\<close>)\<close>

text \<open>
  \<^verbatim>\<open>_copyTo\<close>: the handler of the items that the source tree yields from \<open>first\<close> on;
  \<open>is_first\<close> is the flag \<^verbatim>\<open>first\<close> of the source.
\<close>

fun copyTo_loop ::
  "(('m, 'b) mitem \<Rightarrow> error + ('m, 'b) mitem option) \<Rightarrow> string option \<Rightarrow> bool \<Rightarrow> string option
     \<Rightarrow> bool \<Rightarrow> bool \<Rightarrow> ('m, 'b) mitem list \<Rightarrow> ('m, 'b) tree \<Rightarrow> error + ('m, 'b) tree"
where
  "copyTo_loop transform first excludeFirst last' excludeLast is_first [] dtree = Inr dtree"
| "copyTo_loop transform first excludeFirst last' excludeLast is_first (item # items) dtree =
     (if is_first \<and> first = Some (h_v item) \<and> h_v item \<noteq> [] \<and> excludeFirst
      then copyTo_loop transform first excludeFirst last' excludeLast False items dtree
      else if last' = Some (h_v item) \<and> h_v item \<noteq> [] \<and> excludeLast
      then Inr dtree
      else case transform item of
             Inl err \<Rightarrow> Inl err
           | Inr None \<Rightarrow> copyTo_loop transform first excludeFirst last' excludeLast False items dtree
           | Inr (Some nitem) \<Rightarrow>
               (case tree_write False nitem dtree of
                  Inl err \<Rightarrow> Inl err
                | Inr dtree' \<Rightarrow>
                    if last' = Some (h_v item) \<and> h_v item \<noteq> [] then Inr dtree'
                    else copyTo_loop transform first excludeFirst last' excludeLast False items dtree'))"

definition copyTo ::
  "(('m, 'b) mitem \<Rightarrow> error + ('m, 'b) mitem option) \<Rightarrow> ('m, 'b) tree \<Rightarrow> ('m, 'b) tree
     \<Rightarrow> string option \<Rightarrow> bool \<Rightarrow> string option \<Rightarrow> bool \<Rightarrow> error + ('m, 'b) tree"
where
  "copyTo transform stree dtree first excludeFirst last' excludeLast =
     copyTo_loop transform first excludeFirst last' excludeLast True
       (iterateInsertionOrder stree None first False None False) dtree"

text \<open>
  The handler of a confirmed stage item in \<^verbatim>\<open>createLocalWriteStream\<close>: an item that
  came from a perspective first has the items of that perspective copied to the local
  tree, from the last one copied up to the confirmed version; then the stage item is
  written to the local tree and deleted from the stage.
\<close>

definition promote_step ::
  "(('m, 'b) mitem \<Rightarrow> error + ('m, 'b) mitem option) \<Rightarrow> string \<Rightarrow> ('m, 'b) mitem \<Rightarrow> ('m, 'b) merge_tree
     \<Rightarrow> error + ('m, 'b) merge_tree"
where
  "promote_step transform confirmed stageItem st =
     (case (case h_pe stageItem of
              None \<Rightarrow> Inr (local_tree st)
            | Some pe \<Rightarrow>
                if pe = [] then Inr (local_tree st)
                else
                  let v = (case lastByPerspective (local_tree st) pe of
                             None \<Rightarrow> None
                           | Some v' \<Rightarrow> if v' = [] then None else Some v')
                  in case map_of (pe_trees st) pe of
                       None \<Rightarrow> Inl TypeError
                     | Some ptree \<Rightarrow>
                         copyTo transform ptree (local_tree st) v (v \<noteq> None) (Some confirmed) True) of
        Inl err \<Rightarrow> Inl err
      | Inr local1 \<Rightarrow>
          (case tree_write False stageItem local1 of
             Inl err \<Rightarrow> Inl err
           | Inr local2 \<Rightarrow>
               Inr (st\<lparr> local_tree := local2,
                        stage_tree := tree_del stageItem (stage_tree st) \<rparr>)))"

fun promote_loop ::
  "(('m, 'b) mitem \<Rightarrow> error + ('m, 'b) mitem option) \<Rightarrow> string \<Rightarrow> ('m, 'b) mitem list
     \<Rightarrow> ('m, 'b) merge_tree \<Rightarrow> error + ('m, 'b) merge_tree"
where
  "promote_loop transform confirmed [] st = Inr st"
| "promote_loop transform confirmed (stageItem # items) st =
     (case promote_step transform confirmed stageItem st of
        Inl err \<Rightarrow> Inl err
      | Inr st' \<Rightarrow> promote_loop transform confirmed items st')"

text \<open>
  The handler of one item written to the local write stream. \<open>invalidLocalHeader\<close>
  stands for the check of \<^verbatim>\<open>invalid_local_header.js\<close>. An item whose version is in
  the stage with an equal body confirms the staged items of its id up to that version;
  any other item becomes a new child of the local head.
\<close>

definition localWrite ::
  "(('m, 'b) mitem \<Rightarrow> bool) \<Rightarrow> (('m, 'b) mitem \<Rightarrow> error + ('m, 'b) mitem option)
     \<Rightarrow> (byte list \<Rightarrow> byte list) \<Rightarrow> (('m, 'b) mitem \<Rightarrow> byte list) \<Rightarrow> nat
     \<Rightarrow> ('m, 'b) mitem \<Rightarrow> ('m, 'b) merge_tree \<Rightarrow> error + ('m, 'b) merge_tree"
where
  "localWrite invalidLocalHeader transform sha256 serialize vSize item st =
     (if invalidLocalHeader item then Inl InvalidLocalHeader
      else if h_pa item \<noteq> None then Inl UnexpectedParent
      else
        case (case getByVersion (stage_tree st) (h_v item) of
                None \<Rightarrow> None
              | Some existing \<Rightarrow> if doc existing = doc item then Some existing else None) of
          Some existing \<Rightarrow>
            promote_loop transform (h_v existing)
              (iterateInsertionOrder (stage_tree st) (Some (h_id existing)) None False
                 (Some (h_v existing)) False) st
        | None \<Rightarrow>
            (case getHeads (local_tree st) (h_id item) True True of
               _ # _ # _ \<Rightarrow> Inl AmbiguousLocalHeads
             | heads \<Rightarrow>
                 (case (if h_v item \<noteq> [] then Inr (h_v item)
                        else versionContent sha256 serialize item (Some vSize)) of
                    Inl err \<Rightarrow> Inl err
                  | Inr version \<Rightarrow>
                      (case tree_write False
                              \<lparr> h_id = h_id item, h_v = version, h_pa = Some (map h_v heads),
                                h_pe = None, h_d = h_d item, h_c = False, h_i = None,
                                meta = meta item, doc = doc item \<rparr> (local_tree st) of
                         Inl err \<Rightarrow> Inl err
                       | Inr local' \<Rightarrow> Inr (st\<lparr> local_tree := local' \<rparr>)))))"

text \<open>The key of an item in a tree: its id and version.\<close>

definition mkey :: "('m, 'b) mitem \<Rightarrow> string \<times> string" where
  "mkey x = (h_id x, h_v x)"

section \<open>Streaming reader (\<^verbatim>\<open>VersionedCollectionReader\<close>)\<close>

text \<open>
  Modelled from the spec: \<^verbatim>\<open>walk_branch.js\<close> is not among the sources. \<open>walkBranch\<close>
  walks back along a branch: it goes through the items of the id and perspective in
  reverse insertion order and yields the item of the start version, then the items of
  its parents, and so on. The result lists the items handed to the iterator as long as
  it does not stop the walk.
\<close>

fun walk_back :: "string list \<Rightarrow> 'v item list \<Rightarrow> 'v item list" where
  "walk_back open_heads [] = []"
| "walk_back open_heads (x # xs) =
     (if i_v x \<in> set open_heads
      then x # walk_back (removeAll (i_v x) open_heads @ i_pa x) xs
      else walk_back open_heads xs)"

definition walkBranch :: "string \<Rightarrow> 'v item list \<Rightarrow> string \<Rightarrow> string \<Rightarrow> string \<Rightarrow> 'v item list" where
  "walkBranch localPerspective coll id' pe version =
     walk_back [version] (find_sorted localPerspective id' [pe] coll)"

text \<open>
  What the hooks call back with (\<^verbatim>\<open>run_hooks.js\<close> is not among the sources, \<open>runHooks\<close>
  stands for it): nothing, if a hook filters the item out; or the object after the
  hooks. That object is the item that was handed to the hooks, as they changed it in
  place, or an object that shares its \<^verbatim>\<open>_id\<close> (\<open>SameId\<close>); or it is an object with
  an \<^verbatim>\<open>_id\<close> of its own (\<open>OwnId\<close>; the hooks then are taken to leave the
  \<^verbatim>\<open>_id\<close> of their argument as it is).
\<close>

datatype 'v hooked = Filtered | SameId "'v item" | OwnId "'v item"

text \<open>
  The options of a reader: the local perspective, the offset, the filter (\<open>matches\<close>
  stands for \<^verbatim>\<open>match(filter, item)\<close>) and the hooks.
\<close>

record 'v reader_opts =
  r_localPerspective :: string
  r_offset :: string
  r_matches :: "'v item \<Rightarrow> bool"
  r_runHooks :: "'v item \<Rightarrow> error + 'v hooked"

text \<open>
  The state of a reader: \<^verbatim>\<open>heads\<close> (for a version the parents to report),
  \<^verbatim>\<open>offsetReached\<close>, the counter \<^verbatim>\<open>i\<close>, and the items pushed so far.
\<close>

record 'v reader_state =
  r_heads :: "string list obj"
  r_offsetReached :: bool
  r_i :: nat
  r_pushed :: "'v item list"

text \<open>
  The handler of one parent \<open>p\<close> of the item with version \<open>v\<close>: the entry of \<open>p\<close> is
  taken over and removed, or the branch of \<open>p\<close> is walked back to the first item that
  satisfies the filter. Reading a missing entry of \<open>v\<close> throws.
\<close>

definition parent_step ::
  "'v reader_opts \<Rightarrow> 'v item list \<Rightarrow> 'v item \<Rightarrow> string \<Rightarrow> string list obj \<Rightarrow> error + string list obj"
where
  "parent_step opts coll item p heads =
     (case map_of heads (i_v item) of
        None \<Rightarrow> Inl TypeError
      | Some mine \<Rightarrow>
          (case map_of heads p of
             Some inherited \<Rightarrow> Inr (AList.delete p (AList.update (i_v item) (mine @ inherited) heads))
           | None \<Rightarrow>
               (case find (r_matches opts)
                       (walkBranch (r_localPerspective opts) coll (i_id item)
                          (r_localPerspective opts) p) of
                  None \<Rightarrow> Inr heads
                | Some anItem \<Rightarrow>
                    if i_v anItem \<in> set mine then Inr heads
                    else Inr (AList.update (i_v item) (mine @ [i_v anItem]) heads))))"

fun parents_loop ::
  "'v reader_opts \<Rightarrow> 'v item list \<Rightarrow> 'v item \<Rightarrow> string list \<Rightarrow> string list obj \<Rightarrow> error + string list obj"
where
  "parents_loop opts coll item [] heads = Inr heads"
| "parents_loop opts coll item (p # ps) heads =
     (case parent_step opts coll item p heads of
        Inl err \<Rightarrow> Inl err
      | Inr heads' \<Rightarrow> parents_loop opts coll item ps heads')"

text \<open>
  A pushed item has its perspective, local state and acknowledgement removed (here:
  reset).
\<close>

definition strip :: "'v item \<Rightarrow> 'v item" where
  "strip x = x\<lparr> i_pe := [], i_lo := False, i_i := None, m3_ack := False, m3_op := 0 \<rparr>"

text \<open>
  \<^verbatim>\<open>handleData\<close>. After the hooks the source sets the parents of \<^verbatim>\<open>item\<close> to the
  entry of its version and then pushes \<^verbatim>\<open>afterItem\<close>: the pushed object has the new
  parents only if it has the \<^verbatim>\<open>_id\<close> of \<^verbatim>\<open>item\<close>.
\<close>

definition handleData ::
  "'v reader_opts \<Rightarrow> 'v item list \<Rightarrow> nat \<Rightarrow> 'v item \<Rightarrow> 'v reader_state \<Rightarrow> error + 'v reader_state"
where
  "handleData opts coll maxTries item st =
     (let reached = (r_offsetReached st \<or> i_v item = r_offset opts);
          i' = (if reached then r_i st else Suc (r_i st))
      in if \<not> reached \<and> maxTries \<le> i' then Inl OffsetNotFound
         else
           case parents_loop opts coll item (i_pa item) (AList.update (i_v item) [] (r_heads st)) of
             Inl err \<Rightarrow> Inl err
           | Inr heads \<Rightarrow>
               if \<not> r_matches opts item
               then Inr (st\<lparr> r_heads := heads, r_offsetReached := reached, r_i := i' \<rparr>)
               else
                 (case r_runHooks opts item of
                    Inl err \<Rightarrow> Inl err
                  | Inr Filtered \<Rightarrow>
                      Inr (st\<lparr> r_heads := heads, r_offsetReached := reached, r_i := i' \<rparr>)
                  | Inr (SameId afterItem) \<Rightarrow>
                      Inr (st\<lparr> r_heads := AList.update (i_v afterItem) [i_v afterItem] heads,
                               r_offsetReached := reached,
                               r_i := i',
                               r_pushed :=
                                 (if reached
                                  then r_pushed st
                                       @ [strip (afterItem\<lparr> i_pa :=
                                                   (case map_of heads (i_v afterItem) of
                                                      None \<Rightarrow> [] | Some pa \<Rightarrow> pa) \<rparr>)]
                                  else r_pushed st) \<rparr>)
                  | Inr (OwnId afterItem) \<Rightarrow>
                      Inr (st\<lparr> r_heads := AList.update (i_v item) [i_v item] heads,
                               r_offsetReached := reached,
                               r_i := i',
                               r_pushed :=
                                 (if reached then r_pushed st @ [strip afterItem]
                                  else r_pushed st) \<rparr>)))"

fun read_loop ::
  "'v reader_opts \<Rightarrow> 'v item list \<Rightarrow> nat \<Rightarrow> 'v item list \<Rightarrow> 'v reader_state \<Rightarrow> error + 'v reader_state"
where
  "read_loop opts coll maxTries [] st = Inr st"
| "read_loop opts coll maxTries (item # items) st =
     (case handleData opts coll maxTries item st of
        Inl err \<Rightarrow> Inl err
      | Inr st' \<Rightarrow> read_loop opts coll maxTries items st')"

text \<open>
  The reader without tailing: the items of the local perspective in natural order; the
  offset has to be found within as many items as the collection counts.
\<close>

definition reader :: "'v reader_opts \<Rightarrow> 'v item list \<Rightarrow> error + 'v item list" where
  "reader opts coll =
     (case read_loop opts coll (length coll)
             (filter (\<lambda>x. i_pe x = r_localPerspective opts) coll)
             \<lparr> r_heads = [], r_offsetReached = (r_offset opts = []), r_i = 0, r_pushed = [] \<rparr> of
        Inl err \<Rightarrow> Inl err
      | Inr st \<Rightarrow> Inr (r_pushed st))"

section \<open>Example histories\<close>

text \<open>
  Items of one document in perspective \<open>I\<close>: a root \<open>A\<close>, its children \<open>X\<close> and
  \<open>Z\<close>, and the merge \<open>Y\<close> of \<open>X\<close> and \<open>Z\<close>.
\<close>

definition mk :: "string \<Rightarrow> string list \<Rightarrow> nat \<Rightarrow> nat item" where
  "mk v pa n = \<lparr> i_id = ''doc'', i_v = v, i_pe = ''I'', i_pa = pa, i_d = False, i_lo = False,
                i_i = Some n, m3_ack = False, m3_c = False, m3_op = 0, body = [] \<rparr>"


text \<open>
  Items \<open>X\<close>, \<open>Y\<close>, \<open>Z\<close> of perspective \<open>P\<close>, a chain, all of them staged and none
  in the local tree; and a local write that confirms a version.
\<close>

definition mi :: "string \<Rightarrow> string list \<Rightarrow> nat \<Rightarrow> (nat, nat) mitem" where
  "mi v pa n = \<lparr> h_id = ''doc'', h_v = v, h_pa = Some pa, h_pe = Some ''P'', h_d = False,
                h_c = False, h_i = Some n, meta = None, doc = Some n \<rparr>"

definition exP :: "(nat, nat) tree" where
  "exP = [mi ''X'' [] 1, mi ''Y'' [''X''] 2, mi ''Z'' [''Y''] 3]"

definition exMT :: "(nat, nat) merge_tree" where
  "exMT = \<lparr> local_tree = [], stage_tree = exP, pe_trees = [(''P'', exP)], handler_calls = [] \<rparr>"

definition confirm :: "string \<Rightarrow> nat \<Rightarrow> (nat, nat) mitem" where
  "confirm v n = \<lparr> h_id = ''doc'', h_v = v, h_pa = None, h_pe = None, h_d = False,
                   h_c = False, h_i = None, meta = None, doc = Some n \<rparr>"

text \<open>
  The history of the reader's tests: \<open>A\<close>, \<open>B{A}\<close>, \<open>C{B}\<close>, \<open>D{C}\<close>, \<open>E{B}\<close>,
  \<open>F{E,C}\<close>, \<open>G{F}\<close>. The body holds the attributes that the filters test.
\<close>

definition rd :: "string \<Rightarrow> string list \<Rightarrow> nat \<Rightarrow> string obj \<Rightarrow> string item" where
  "rd v pa n attrs = \<lparr> i_id = ''foo'', i_v = v, i_pe = ''I'', i_pa = pa, i_d = False, i_lo = False,
                       i_i = Some n, m3_ack = True, m3_c = False, m3_op = 0, body = attrs \<rparr>"

definition exDAG :: "string item list" where
  "exDAG = [rd ''A'' [] 1 [(''baz'', ''qux'')],
            rd ''B'' [''A''] 2 [(''foo'', ''bar'')],
            rd ''C'' [''B''] 3 [(''baz'', ''mux''), (''foo'', ''bar'')],
            rd ''D'' [''C''] 4 [(''baz'', ''qux'')],
            rd ''E'' [''B''] 5 [],
            rd ''F'' [''E'', ''C''] 6 [(''foo'', ''bar'')],
            rd ''G'' [''F''] 7 [(''baz'', ''qux'')]]"

text \<open>The item as the reader pushes it.\<close>

definition pushed :: "string \<Rightarrow> string list \<Rightarrow> string obj \<Rightarrow> string item" where
  "pushed v pa attrs = \<lparr> i_id = ''foo'', i_v = v, i_pe = [], i_pa = pa, i_d = False, i_lo = False,
                        i_i = None, m3_ack = False, m3_c = False, m3_op = 0, body = attrs \<rparr>"

text \<open>A filter on one attribute, as \<^verbatim>\<open>match({ k: v }, item)\<close>.\<close>

definition has_attr :: "string \<Rightarrow> string \<Rightarrow> string item \<Rightarrow> bool" where
  "has_attr k v x = (map_of (body x) k = Some v)"

section \<open>Properties of objects and their enumeration\<close>

lemma set_for_in: "set (for_in ob) = set ob"
  by (auto simp: for_in_def)

lemma set_Object_keys: "set (Object_keys ob) = fst ` set ob"
  by (simp add: Object_keys_def set_for_in)

lemma Object_keys_Nil: "Object_keys [] = []"
  by (simp add: Object_keys_def for_in_def)


lemma distinct_for_in: "distinct (map fst ob) \<Longrightarrow> distinct (map fst (for_in ob))"
  by (auto simp: for_in_def distinct_map inj_on_def)




lemma keys_iff_has: "k \<in> set (Object_keys ob) \<longleftrightarrow> hasOwnProperty ob k"
  by (simp add: set_Object_keys hasOwnProperty_def map_of_eq_None_iff)

lemma foldE_Inr:
  "(\<And>k s. k \<in> set ks \<Longrightarrow> f k s = Inr (g k s)) \<Longrightarrow> foldE f ks s = Inr (fold g ks s)"
  by (induction ks arbitrary: s) simp_all

section \<open>Properties of the three-way merge\<close>

subsection \<open>The plain folds\<close>

lemma fold_unchanged:
  "(\<And>k. k \<in> set ks \<Longrightarrow> f k s = s) \<Longrightarrow> fold f ks s = s"
  by (induction ks) auto

lemma diffA_fold_fst:
  "fst (fold (plain_diffA str itemA lca) ks st) =
     fold (\<lambda>k m. case map_of itemA k of None \<Rightarrow> m | Some v \<Rightarrow> AList.update k v m) ks (fst st)"
  by (induction ks arbitrary: st) (simp_all add: plain_diffA_def)

lemma diffA_fold_snd:
  "snd (fold (plain_diffA str itemA lca) ks st) =
     fold (plain_diffB str itemA lca) ks (snd st)"
  by (induction ks arbitrary: st) (simp_all add: plain_diffA_def plain_diffB_def Let_def)

lemma map_of_copy_fold:
  "map_of (fold (\<lambda>k m. case map_of itemA k of None \<Rightarrow> m | Some v \<Rightarrow> AList.update k v m) ks m0) k =
     (if k \<in> set ks \<and> map_of itemA k \<noteq> None then map_of itemA k else map_of m0 k)"
  by (induction ks arbitrary: m0) (auto simp: update_conv' split: option.splits)

lemma map_of_copy:
  "map_of (fst (fold (plain_diffA str itemA lca) (Object_keys itemA) ([], []))) = map_of itemA"
proof
  fix k
  show "map_of (fst (fold (plain_diffA str itemA lca) (Object_keys itemA) ([], []))) k
          = map_of itemA k"
  proof (cases "map_of itemA k")
    case None
    then show ?thesis by (simp add: diffA_fold_fst map_of_copy_fold)
  next
    case (Some v)
    then have "k \<in> set (Object_keys itemA)"
      by (simp add: keys_iff_has hasOwnProperty_def)
    with Some show ?thesis by (simp add: diffA_fold_fst map_of_copy_fold)
  qed
qed

lemma in_keys_hasOwnProperty:
  "k \<in> set (Object_keys ob) \<Longrightarrow> hasOwnProperty ob k"
  by (simp add: keys_iff_has)

lemma diff_self_empty:
  "fold (plain_diffB str x x) (Object_keys x) [] = []"
  by (rule fold_unchanged) (simp add: plain_diffB_def in_keys_hasOwnProperty)

lemma removedA_self_empty:
  "fold (plain_removedA x) (Object_keys x) [] = []"
  by (rule fold_unchanged) (simp add: plain_removedA_def in_keys_hasOwnProperty)

lemma removedB_self_empty:
  "fold (plain_removedB x []) (Object_keys x) ([], []) = ([], [])"
  by (rule fold_unchanged) (simp add: plain_removedB_def in_keys_hasOwnProperty)

lemma map_of_diffB_fold:
  "map_of (fold (plain_diffB str item lca) ks d) k =
     (if k \<in> set ks
      then (if hasOwnProperty lca k
            then (if stringify_at str item k \<noteq> stringify_at str lca k
                  then Some Changed else map_of d k)
            else Some Created)
      else map_of d k)"
  by (induction ks arbitrary: d) (auto simp: plain_diffB_def update_conv')

lemma map_of_removedA_fold:
  "map_of (fold (plain_removedA item) ks d) k =
     (if k \<in> set ks \<and> \<not> hasOwnProperty item k then Some Removed else map_of d k)"
  by (induction ks arbitrary: d) (auto simp: plain_removedA_def update_conv')

lemma removedB_fold_fst:
  "fst (fold (plain_removedB itemB diffA) ks st) = fold (plain_removedA itemB) ks (fst st)"
  by (induction ks arbitrary: st) (simp_all add: plain_removedB_def plain_removedA_def)

lemma detect_conflicts_mono:
  "c \<in> set (snd st) \<Longrightarrow> c \<in> set (snd (fold (plain_detect str itemA itemB diffA diffB) ks st))"
  by (induction ks arbitrary: st) (auto simp: plain_detect_def split: option.splits)

lemma detect_reports:
  "d \<in> set ks \<Longrightarrow> map_of diffA d \<noteq> None \<Longrightarrow> map_of diffA d \<noteq> map_of diffB d
     \<Longrightarrow> d \<in> set (snd (fold (plain_detect str itemA itemB diffA diffB) ks st))"
proof (induction ks arbitrary: st)
  case Nil
  then show ?case by simp
next
  case (Cons a ks)
  show ?case
  proof (cases "a = d")
    case True
    with Cons.prems have "d \<in> set (snd (plain_detect str itemA itemB diffA diffB a st))"
      by (simp add: plain_detect_def)
    then show ?thesis by (simp add: detect_conflicts_mono)
  next
    case False
    with Cons show ?thesis by simp
  qed
qed

lemma detect_other_keys:
  "d \<notin> set ks \<Longrightarrow>
     map_of (fst (fold (plain_detect str itemA itemB diffA diffB) ks st)) d = map_of (fst st) d"
  by (induction ks arbitrary: st)
     (auto simp: plain_detect_def update_conv' delete_conv' split: option.splits)

lemma detect_removes:
  "d \<in> set ks \<Longrightarrow> map_of diffA d = None \<Longrightarrow> map_of diffB d = Some Removed
     \<Longrightarrow> map_of (fst (fold (plain_detect str itemA itemB diffA diffB) ks st)) d = None"
proof (induction ks arbitrary: st)
  case Nil
  then show ?case by simp
next
  case (Cons a ks)
  show ?case
  proof (cases "d \<in> set ks")
    case True
    with Cons show ?thesis by simp
  next
    case False
    with Cons.prems have "a = d" by simp
    have "plain_detect str itemA itemB diffA diffB d st = (AList.delete d (fst st), snd st)"
      using Cons.prems by (simp add: plain_detect_def)
    with False \<open>a = d\<close> show ?thesis
      by (simp add: detect_other_keys delete_conv')
  qed
qed

lemma map_of_diffA:
  "map_of (fold (plain_removedA itemA) (Object_keys lca)
            (snd (fold (plain_diffA str itemA lca) (Object_keys itemA) ([], [])))) k =
     (if hasOwnProperty itemA k
      then (if hasOwnProperty lca k
            then (if stringify_at str itemA k \<noteq> stringify_at str lca k
                  then Some Changed else None)
            else Some Created)
      else (if hasOwnProperty lca k then Some Removed else None))"
  by (simp add: map_of_removedA_fold diffA_fold_snd map_of_diffB_fold keys_iff_has)

lemma map_of_diffB:
  "map_of (fst (fold (plain_removedB itemB diffA) (Object_keys lcaB)
            (fold (plain_diffB str itemB lcaB) (Object_keys itemB) [], []))) k =
     (if hasOwnProperty itemB k
      then (if hasOwnProperty lcaB k
            then (if stringify_at str itemB k \<noteq> stringify_at str lcaB k
                  then Some Changed else None)
            else Some Created)
      else (if hasOwnProperty lcaB k then Some Removed else None))"
  by (simp add: removedB_fold_fst map_of_removedA_fold map_of_diffB_fold keys_iff_has)


subsection \<open>Without an attribute \<^verbatim>\<open>hasOwnProperty\<close> the merge is the plain one\<close>

lemma call_hasOwnProperty_plain:
  "\<not> hasOwnProperty ob ''hasOwnProperty'' \<Longrightarrow> call_hasOwnProperty ob k = Inr (hasOwnProperty ob k)"
  by (simp add: call_hasOwnProperty_def)

lemma threeWayMerge_plain:
  assumes a: "\<not> hasOwnProperty itemA ''hasOwnProperty''"
    and b: "\<not> hasOwnProperty itemB ''hasOwnProperty''"
    and l: "\<not> hasOwnProperty lca ''hasOwnProperty''"
    and lb: "\<not> hasOwnProperty (case lcaB_opt of None \<Rightarrow> lca | Some l \<Rightarrow> l) ''hasOwnProperty''"
  shows "threeWayMerge str itemA itemB lca lcaB_opt = Inr (plain_merge str itemA itemB lca lcaB_opt)"
proof -
  define lcaB where "lcaB = (case lcaB_opt of None \<Rightarrow> lca | Some l \<Rightarrow> l)"
  define stA where "stA = fold (plain_diffA str itemA lca) (Object_keys itemA) ([], [])"
  define diffA where "diffA = fold (plain_removedA itemA) (Object_keys lca) (snd stA)"
  define diffB0 where "diffB0 = fold (plain_diffB str itemB lcaB) (Object_keys itemB) []"
  define stB where "stB = fold (plain_removedB itemB diffA) (Object_keys lcaB) (diffB0, [])"
  define res where "res = fold (plain_detect str itemA itemB diffA (fst stB)) (Object_keys (fst stB))
                            (fst stA, snd stB)"
  have dA: "\<not> hasOwnProperty diffA ''hasOwnProperty''"
    using a l by (simp add: diffA_def stA_def map_of_diffA hasOwnProperty_def)
  have 1: "foldE (diffA_step str itemA lca) (Object_keys itemA) ([], []) = Inr stA"
    unfolding stA_def
    by (rule foldE_Inr) (simp add: diffA_step_def plain_diffA_def call_hasOwnProperty_plain[OF l])
  have 2: "foldE (removedA_step itemA) (Object_keys lca) (snd stA) = Inr diffA"
    unfolding diffA_def
    by (rule foldE_Inr) (simp add: removedA_step_def plain_removedA_def call_hasOwnProperty_plain[OF a])
  have 3: "foldE (diffB_step str itemB lcaB) (Object_keys itemB) [] = Inr diffB0"
    unfolding diffB0_def
    by (rule foldE_Inr)
       (simp add: diffB_step_def plain_diffB_def call_hasOwnProperty_plain[OF lb[folded lcaB_def]])
  have 4: "foldE (removedB_step itemB diffA) (Object_keys lcaB) (diffB0, []) = Inr stB"
    unfolding stB_def
    by (rule foldE_Inr)
       (auto simp: removedB_step_def plain_removedB_def call_hasOwnProperty_plain[OF b]
          call_hasOwnProperty_plain[OF dA] hasOwnProperty_def)
  have 5: "foldE (detect_step str itemA itemB diffA (fst stB)) (Object_keys (fst stB))
             (fst stA, snd stB) = Inr res"
    unfolding res_def
    by (rule foldE_Inr)
       (auto simp: detect_step_def plain_detect_def call_hasOwnProperty_plain[OF a]
          call_hasOwnProperty_plain[OF dA] hasOwnProperty_def Let_def)
  show ?thesis
    by (simp add: threeWayMerge_def plain_merge_def Let_def 1 2 3 4 5
          flip: lcaB_def stA_def diffA_def diffB0_def stB_def res_def)
qed

subsection \<open>Reflexivity\<close>

lemma plain_merge_reflexive:
  "\<exists>m. plain_merge str x x x None = MergedItem m \<and> map_of m = map_of x"
  by (simp add: plain_merge_def Let_def diffA_fold_snd diff_self_empty
        removedA_self_empty removedB_self_empty Object_keys_Nil map_of_copy)

text \<open>
  For an item \<open>x\<close> without an attribute named \<^verbatim>\<open>hasOwnProperty\<close> the merge is
  reflexive: \<^verbatim>\<open>_threeWayMerge(x, x, x)\<close> reports no conflict and returns an item
  with exactly the attributes and values of \<open>x\<close>.
\<close>

lemma threeWayMerge_reflexive_plain:
  assumes "\<not> hasOwnProperty x ''hasOwnProperty''"
  shows "\<exists>m. threeWayMerge str x x x None = Inr (MergedItem m) \<and> map_of m = map_of x"
  using plain_merge_reflexive[of str x] assms by (simp add: threeWayMerge_plain)

text \<open>
  C9. The merge of an item with itself against itself is to return that item. For the
  item \<^verbatim>\<open>{ hasOwnProperty: 1, a: 2 }\<close> it does not: the first test is the method call
  \<^verbatim>\<open>lca.hasOwnProperty(keyA)\<close> on the item itself, the attribute shadows the
  method, and the merge throws a \<^verbatim>\<open>TypeError\<close> instead of returning an item or
  conflicts.
\<close>

theorem threeWayMerge_reflexive_throws:
  "threeWayMerge str [(''hasOwnProperty'', 1::nat), (''a'', 2)]
       [(''hasOwnProperty'', 1), (''a'', 2)] [(''hasOwnProperty'', 1), (''a'', 2)] None
     = Inl TypeError"
  by (simp add: threeWayMerge_def Object_keys_def for_in_def is_index_def diffA_step_def
        call_hasOwnProperty_def hasOwnProperty_def)

subsection \<open>Attributes deleted in one side\<close>

lemma plain_merge_deleted_in_one_side:
  assumes "hasOwnProperty lca k"
    and "hasOwnProperty (case lcaB_opt of None \<Rightarrow> lca | Some l \<Rightarrow> l) k"
    and "hasOwnProperty itemA k \<noteq> hasOwnProperty itemB k"
  shows "if (if hasOwnProperty itemA k
             then stringify_at str itemA k = stringify_at str lca k
             else stringify_at str itemB k =
                    stringify_at str (case lcaB_opt of None \<Rightarrow> lca | Some l \<Rightarrow> l) k)
         then \<forall>m. plain_merge str itemA itemB lca lcaB_opt = MergedItem m \<longrightarrow> \<not> hasOwnProperty m k
         else \<exists>cs. plain_merge str itemA itemB lca lcaB_opt = Conflicts cs \<and> k \<in> set cs"
proof -
  define lcaB where "lcaB = (case lcaB_opt of None \<Rightarrow> lca | Some l \<Rightarrow> l)"
  define stA where "stA = fold (plain_diffA str itemA lca) (Object_keys itemA) ([], [])"
  define diffA where "diffA = fold (plain_removedA itemA) (Object_keys lca) (snd stA)"
  define stB where "stB = fold (plain_removedB itemB diffA) (Object_keys lcaB)
                            (fold (plain_diffB str itemB lcaB) (Object_keys itemB) [], [])"
  define diffB where "diffB = fst stB"
  define res where "res = fold (plain_detect str itemA itemB diffA diffB) (Object_keys diffB)
                            (fst stA, snd stB)"
  have twm: "plain_merge str itemA itemB lca lcaB_opt =
               (if snd res \<noteq> [] then Conflicts (snd res) else MergedItem (fst res))"
    by (simp add: plain_merge_def Let_def lcaB_def stA_def diffA_def stB_def diffB_def res_def)
  have dA: "map_of diffA k =
     (if hasOwnProperty itemA k
      then (if stringify_at str itemA k \<noteq> stringify_at str lca k then Some Changed else None)
      else Some Removed)"
    using assms(1) by (simp add: diffA_def stA_def map_of_diffA)
  have dB: "map_of diffB k =
     (if hasOwnProperty itemB k
      then (if stringify_at str itemB k \<noteq> stringify_at str lcaB k then Some Changed else None)
      else Some Removed)"
    using assms(2) by (simp add: diffB_def stB_def map_of_diffB lcaB_def)
  have copyA: "map_of (fst stA) k = map_of itemA k"
    by (simp add: stA_def map_of_copy)
  show ?thesis
  proof (cases "hasOwnProperty itemA k")
    case True
    then have nB: "\<not> hasOwnProperty itemB k" using assms(3) by simp
    have kB: "k \<in> set (Object_keys diffB)"
      using dB nB by (simp add: keys_iff_has hasOwnProperty_def)
    show ?thesis
    proof (cases "stringify_at str itemA k = stringify_at str lca k")
      case same: True
      have "map_of (fst res) k = None"
        unfolding res_def using kB dA dB True nB same by (intro detect_removes) simp_all
      then show ?thesis using True same by (simp add: twm hasOwnProperty_def)
    next
      case False
      have "k \<in> set (snd res)"
        unfolding res_def using kB dA dB True nB False by (intro detect_reports) simp_all
      then show ?thesis using True False by (auto simp: twm)
    qed
  next
    case False
    then have hB: "hasOwnProperty itemB k" using assms(3) by simp
    show ?thesis
    proof (cases "stringify_at str itemB k = stringify_at str lcaB k")
      case same: True
      have "k \<notin> set (Object_keys diffB)"
        using dB hB same by (simp add: keys_iff_has hasOwnProperty_def)
      then have "map_of (fst res) k = map_of (fst stA) k"
        unfolding res_def by (simp add: detect_other_keys)
      then show ?thesis using False same copyA
        by (simp add: twm hasOwnProperty_def lcaB_def)
    next
      case diff: False
      have kB: "k \<in> set (Object_keys diffB)"
        using dB hB diff by (simp add: keys_iff_has hasOwnProperty_def)
      have "k \<in> set (snd res)"
        unfolding res_def using kB dA dB False hB diff by (intro detect_reports) simp_all
      then show ?thesis using False diff by (auto simp: twm lcaB_def)
    qed
  qed
qed


text \<open>
  For items without an attribute named \<^verbatim>\<open>hasOwnProperty\<close>: an attribute \<open>k\<close>
  that is present in the lowest common ancestor (of each side) and deleted in exactly
  one side is absent from every merged item if the other side left its serialized value
  unchanged from its ancestor, and is among the reported conflicts if the other side
  changed the serialized value.
\<close>

lemma threeWayMerge_deleted_in_one_side_plain:
  assumes "\<not> hasOwnProperty itemA ''hasOwnProperty''"
    and "\<not> hasOwnProperty itemB ''hasOwnProperty''"
    and "\<not> hasOwnProperty lca ''hasOwnProperty''"
    and "\<not> hasOwnProperty (case lcaB_opt of None \<Rightarrow> lca | Some l \<Rightarrow> l) ''hasOwnProperty''"
    and "hasOwnProperty lca k"
    and "hasOwnProperty (case lcaB_opt of None \<Rightarrow> lca | Some l \<Rightarrow> l) k"
    and "hasOwnProperty itemA k \<noteq> hasOwnProperty itemB k"
  shows "if (if hasOwnProperty itemA k
             then stringify_at str itemA k = stringify_at str lca k
             else stringify_at str itemB k =
                    stringify_at str (case lcaB_opt of None \<Rightarrow> lca | Some l \<Rightarrow> l) k)
         then \<forall>m. threeWayMerge str itemA itemB lca lcaB_opt = Inr (MergedItem m)
                  \<longrightarrow> \<not> hasOwnProperty m k
         else \<exists>cs. threeWayMerge str itemA itemB lca lcaB_opt = Inr (Conflicts cs) \<and> k \<in> set cs"
proof -
  have e: "threeWayMerge str itemA itemB lca lcaB_opt = Inr (plain_merge str itemA itemB lca lcaB_opt)"
    by (rule threeWayMerge_plain[OF assms(1,2,3,4)])
  from plain_merge_deleted_in_one_side[OF assms(5,6,7), of str] show ?thesis
    unfolding e sum.inject .
qed

lemma threeWayMerge_deleted_examples:
  "threeWayMerge Some [(''b'', 2::nat)] [(''a'', 1), (''b'', 2)] [(''a'', 1), (''b'', 2)] None
      = Inr (MergedItem [(''b'', 2)])
   \<and> threeWayMerge Some [(''a'', 7), (''b'', 2::nat)] [(''b'', 2)] [(''a'', 1), (''b'', 2)] None
      = Inr (Conflicts [''a''])"
  by code_simp

text \<open>
  C4. An attribute that is present in the lowest common ancestor, deleted in one side
  and changed in the other is to be reported as a conflict, and to be dropped if the
  other side left it unchanged. With \<open>a\<close> deleted in \<open>itemB\<close> and an attribute named
  \<^verbatim>\<open>hasOwnProperty\<close> in the items, neither happens: \<^verbatim>\<open>lca.hasOwnProperty(keyA)\<close>
  calls the value of the attribute and the merge throws a \<^verbatim>\<open>TypeError\<close>, whether
  \<open>itemA\<close> changed \<open>a\<close> or not.
\<close>

theorem threeWayMerge_deleted_in_one_side_throws:
  "threeWayMerge str [(''a'', 7::nat), (''hasOwnProperty'', 1)] [(''hasOwnProperty'', 1)]
       [(''a'', 1), (''hasOwnProperty'', 1)] None = Inl TypeError
   \<and> threeWayMerge str [(''a'', 1::nat), (''hasOwnProperty'', 1)] [(''hasOwnProperty'', 1)]
       [(''a'', 1), (''hasOwnProperty'', 1)] None = Inl TypeError"
  by (simp add: threeWayMerge_def Object_keys_def for_in_def is_index_def diffA_step_def
        call_hasOwnProperty_def hasOwnProperty_def)

section \<open>Properties of the LCA search\<close>










lemma headsX_trackY [simp]: "headsX (trackY pY item st) = headsX st"
  by (simp add: trackY_def Let_def)





section \<open>Properties of the writer pipeline\<close>







subsection \<open>The loops of \<^verbatim>\<open>_branchHeads\<close>\<close>



















subsection \<open>One head per batch\<close>













text \<open>
  Outside the batches of the theorem the order of arrival is not kept: the enumeration
  of \<^verbatim>\<open>heads\<close> puts versions that are array indices first, in numeric order. In the
  batch \<open>A\<close>, \<open>20000000\<close>, \<open>10000000\<close> the head \<open>10000000\<close>, which arrived last, is
  the one that is left as it is.
\<close>

lemma branchHeads_enumeration_example:
  "branchHeads [mk ''A'' [] 1, mk ''20000000'' [''A''] 2, mk ''10000000'' [''A''] 3] True False
     = Inr [mk ''10000000'' [''A''] 3, mk ''20000000'' [''A''] 2]
   \<and> ensureOneHead [mk ''A'' [] 1, mk ''20000000'' [''A''] 2, mk ''10000000'' [''A''] 3]
     = Inr (Some [mk ''10000000'' [''A''] 3])"
  by code_simp

subsection \<open>New roots after a deletion\<close>




subsection \<open>Oplog deletes\<close>

lemma findOne_last_Some:
  assumes "findOne_last sel coll = Some p"
  shows "p \<in> set coll \<and> sel p \<and> (\<forall>q\<in>set coll. sel q \<longrightarrow> i_i q \<le> i_i p)"
proof -
  define ys where "ys = sort_key i_i (filter sel coll)"
  from assms obtain rest where "rev ys = p # rest"
    by (auto simp: findOne_last_def ys_def split: list.splits)
  then have ys: "ys = rev rest @ [p]"
    by (metis rev.simps(2) rev_rev_ident)
  have s: "sorted (map i_i ys)" and m: "set ys = set (filter sel coll)"
    by (simp_all add: ys_def)
  from m ys have p: "p \<in> set coll" "sel p" by auto
  have "\<forall>q\<in>set ys. i_i q \<le> i_i p"
    using s unfolding ys by (auto simp: sorted_append)
  with m p show ?thesis by auto
qed

lemma findOne_last_None:
  "findOne_last sel coll = None \<longleftrightarrow> filter sel coll = []"
proof -
  have "rev (sort_key i_i (filter sel coll)) = [] \<longleftrightarrow> filter sel coll = []"
    by (metis rev_is_Nil_conv set_empty set_sort)
  then show ?thesis
    by (auto simp: findOne_last_def split: list.splits)
qed

text \<open>
  C10. An oplog delete creates its tombstone already acknowledged: the new item is a
  deletion with \<^verbatim>\<open>_m3._ack = true\<close> whose single parent is the version of the local
  item with the greatest \<^verbatim>\<open>_id._i\<close> among those acknowledged or locally created (the
  result is this item, or the error of the pipeline run on it); without such an item
  the delete fails with \<^verbatim>\<open>previous version of doc not found\<close>. A version created by
  an insert or a full-document update starts with \<^verbatim>\<open>_m3._ack = false\<close>.
\<close>

theorem oplog_delete_creates_acknowledged_tombstone:
  assumes "op_name oplogItem = ''d''" and "o_id oplogItem \<noteq> []"
  shows "(case findLastAckdOrLocallyCreated cfg snapshot (o_id oplogItem) of
            None \<Rightarrow>
              filter (\<lambda>x. i_id x = o_id oplogItem \<and> i_pe x = cfg_localPerspective cfg
                            \<and> (i_lo x \<or> m3_ack x)) snapshot = []
              \<and> applyOplogDeleteItem cfg rnd snapshot ensureAllInDAG oplogItem = Inl PreviousDocNotFound
          | Some p \<Rightarrow>
              p \<in> set snapshot \<and> i_id p = o_id oplogItem \<and> i_pe p = cfg_localPerspective cfg
              \<and> (i_lo p \<or> m3_ack p)
              \<and> (\<forall>q\<in>set snapshot.
                    i_id q = o_id oplogItem \<and> i_pe q = cfg_localPerspective cfg \<and> (i_lo q \<or> m3_ack q)
                    \<longrightarrow> i_i q \<le> i_i p)
              \<and> (\<exists>newObj. i_id newObj = o_id oplogItem \<and> i_d newObj \<and> i_pa newObj = [i_v p]
                    \<and> m3_ack newObj
                    \<and> applyOplogDeleteItem cfg rnd snapshot ensureAllInDAG oplogItem =
                        (case ensureAllInDAG newObj of Some err \<Rightarrow> Inl err | None \<Rightarrow> Inr newObj)))
    \<and> ((\<forall>item\<in>set snapshot. \<not> compare item (o_doc u))
         \<and> applyOplogUpdateFullDoc cfg rnd snapshot ensureAllInDAG compare setAckd u = Inr created
        \<longrightarrow> \<not> m3_ack created)"
proof -
  let ?sel = "\<lambda>x. i_id x = o_id oplogItem \<and> i_pe x = cfg_localPerspective cfg \<and> (i_lo x \<or> m3_ack x)"
  have part1: "case findLastAckdOrLocallyCreated cfg snapshot (o_id oplogItem) of
            None \<Rightarrow>
              filter ?sel snapshot = []
              \<and> applyOplogDeleteItem cfg rnd snapshot ensureAllInDAG oplogItem = Inl PreviousDocNotFound
          | Some p \<Rightarrow>
              p \<in> set snapshot \<and> i_id p = o_id oplogItem \<and> i_pe p = cfg_localPerspective cfg
              \<and> (i_lo p \<or> m3_ack p)
              \<and> (\<forall>q\<in>set snapshot. ?sel q \<longrightarrow> i_i q \<le> i_i p)
              \<and> (\<exists>newObj. i_id newObj = o_id oplogItem \<and> i_d newObj \<and> i_pa newObj = [i_v p]
                    \<and> m3_ack newObj
                    \<and> applyOplogDeleteItem cfg rnd snapshot ensureAllInDAG oplogItem =
                        (case ensureAllInDAG newObj of Some err \<Rightarrow> Inl err | None \<Rightarrow> Inr newObj))"
  proof (cases "findLastAckdOrLocallyCreated cfg snapshot (o_id oplogItem)")
    case None
    then have "filter ?sel snapshot = []"
      by (simp add: findLastAckdOrLocallyCreated_def findOne_last_None)
    with None assms show ?thesis
      by (simp add: applyOplogDeleteItem_def)
  next
    case (Some p)
    then have "findOne_last ?sel snapshot = Some p"
      by (simp add: findLastAckdOrLocallyCreated_def)
    from findOne_last_Some[OF this]
    have sel: "p \<in> set snapshot \<and> ?sel p \<and> (\<forall>q\<in>set snapshot. ?sel q \<longrightarrow> i_i q \<le> i_i p)" .
    let ?new = "(versionDoc cfg rnd (o_id oplogItem) (body p) False)
                  \<lparr> i_pa := [i_v p], i_d := True,
                    m3_ack := True, m3_c := False, m3_op := op_ts oplogItem \<rparr>"
    have "i_id ?new = o_id oplogItem \<and> i_d ?new \<and> i_pa ?new = [i_v p] \<and> m3_ack ?new
          \<and> applyOplogDeleteItem cfg rnd snapshot ensureAllInDAG oplogItem =
              (case ensureAllInDAG ?new of Some err \<Rightarrow> Inl err | None \<Rightarrow> Inr ?new)"
      using assms Some by (simp add: applyOplogDeleteItem_def Let_def) (simp add: versionDoc_def)
    then have "\<exists>newObj. i_id newObj = o_id oplogItem \<and> i_d newObj \<and> i_pa newObj = [i_v p]
                    \<and> m3_ack newObj
                    \<and> applyOplogDeleteItem cfg rnd snapshot ensureAllInDAG oplogItem =
                        (case ensureAllInDAG newObj of Some err \<Rightarrow> Inl err | None \<Rightarrow> Inr newObj)"
      by blast
    with sel Some show ?thesis by simp
  qed
  have part2: "(\<forall>item\<in>set snapshot. \<not> compare item (o_doc u))
         \<and> applyOplogUpdateFullDoc cfg rnd snapshot ensureAllInDAG compare setAckd u = Inr created
        \<longrightarrow> \<not> m3_ack created"
  proof (intro impI, elim conjE)
    assume nc: "\<forall>item\<in>set snapshot. \<not> compare item (o_doc u)"
      and r: "applyOplogUpdateFullDoc cfg rnd snapshot ensureAllInDAG compare setAckd u = Inr created"
    have nf: "\<And>sel item. find sel snapshot = Some item \<Longrightarrow> \<not> compare item (o_doc u)"
      using nc by (auto simp: find_Some_iff)
    show "\<not> m3_ack created"
      using r nf
      by (auto simp: applyOplogUpdateFullDoc_def saveCollectionItem_def versionDoc_def Let_def
               split: if_splits option.splits)
  qed
  from part1 part2 show ?thesis by blast
qed

theorem oplog_delete_creates_acknowledged_tombstone_witness:
  "applyOplogDeleteItem
     \<lparr> cfg_localPerspective = ''I'', cfg_versionKey = ''_v'', cfg_truthy = (\<lambda>n. n \<noteq> 0),
       cfg_as_version = (\<lambda>n. []) \<rparr>
     (\<lambda>n. [0, 0, 0, 0, 0, 0])
     [(mk ''A'' [] 1)\<lparr> i_lo := True \<rparr>, (mk ''B'' [''A''] 2)\<lparr> m3_ack := True \<rparr>, mk ''C'' [''B''] 3]
     (\<lambda>x. None)
     \<lparr> op_name = ''d'', o_id = ''doc'', o_doc = [], op_ts = 7 \<rparr>
   = Inr \<lparr> i_id = ''doc'', i_v = ''AAAAAAAA'', i_pe = ''I'', i_pa = [''B''], i_d = True,
           i_lo = True, i_i = None, m3_ack = True, m3_c = False, m3_op = 7, body = [] \<rparr>
   \<and> applyOplogDeleteItem
     \<lparr> cfg_localPerspective = ''I'', cfg_versionKey = ''_v'', cfg_truthy = (\<lambda>n. n \<noteq> 0),
       cfg_as_version = (\<lambda>n. []) \<rparr>
     (\<lambda>n. [0, 0, 0, 0, 0, 0]) [mk ''C'' [''B''] 3] (\<lambda>x. None)
     \<lparr> op_name = ''d'', o_id = ''doc'', o_doc = [], op_ts = 7 \<rparr>
   = Inl PreviousDocNotFound
   \<and> \<not> m3_ack \<lparr> i_id = ''doc'', i_v = ''AAAAAAAA'', i_pe = ''I'', i_pa = [''B''], i_d = False,
           i_lo = True, i_i = None, m3_ack = False, m3_c = False, m3_op = 8, body = [(''a'', 1)] \<rparr>"
proof -
  let ?cfg = "\<lparr> cfg_localPerspective = ''I'', cfg_versionKey = ''_v'', cfg_truthy = (\<lambda>n. n \<noteq> 0),
                cfg_as_version = (\<lambda>n. []) \<rparr> :: nat settings"
  let ?rnd = "\<lambda>n. [0, 0, 0, 0, 0, 0] :: byte list"
  let ?snap = "[(mk ''A'' [] 1)\<lparr> i_lo := True \<rparr>, (mk ''B'' [''A''] 2)\<lparr> m3_ack := True \<rparr>,
                mk ''C'' [''B''] 3]"
  let ?d = "\<lparr> op_name = ''d'', o_id = ''doc'', o_doc = [], op_ts = 7 \<rparr> :: nat oplog_item"
  let ?u = "\<lparr> op_name = ''u'', o_id = ''doc'', o_doc = [(''a'', 1)], op_ts = 8 \<rparr> :: nat oplog_item"
  let ?created = "\<lparr> i_id = ''doc'', i_v = ''AAAAAAAA'', i_pe = ''I'', i_pa = [''B''], i_d = False,
           i_lo = True, i_i = None, m3_ack = False, m3_c = False, m3_op = 8, body = [(''a'', 1)] \<rparr>"
  have d: "op_name ?d = ''d''" "o_id ?d \<noteq> []"
    by simp_all
  have v: "generateRandomVersion ?rnd None = ''AAAAAAAA''"
    by (simp add: generateRandomVersion_def b64chars_def)
  have last1: "findLastAckdOrLocallyCreated ?cfg ?snap (o_id ?d) = Some ((mk ''B'' [''A''] 2)\<lparr> m3_ack := True \<rparr>)"
    by (simp add: findLastAckdOrLocallyCreated_def findOne_last_def mk_def)
  have last2: "findLastAckdOrLocallyCreated ?cfg [mk ''C'' [''B''] 3] (o_id ?d) = None"
    by (simp add: findLastAckdOrLocallyCreated_def findOne_last_def mk_def)
  have u: "applyOplogUpdateFullDoc ?cfg ?rnd ?snap (\<lambda>x. None) (\<lambda>x y. False) (\<lambda>x. None) ?u = Inr ?created"
    using last1 v
    by (simp add: applyOplogUpdateFullDoc_def versionDoc_def mk_def)
  have nc: "\<forall>item\<in>set ?snap. \<not> (\<lambda>x y. False) item (o_doc ?u)"
    by simp
  from oplog_delete_creates_acknowledged_tombstone [OF d, of ?cfg ?snap ?rnd "\<lambda>x. None" "\<lambda>x y. False" ?u
      "\<lambda>x. None" ?created] last1 u nc
  have "applyOplogDeleteItem ?cfg ?rnd ?snap (\<lambda>x. None) ?d
          = Inr \<lparr> i_id = ''doc'', i_v = ''AAAAAAAA'', i_pe = ''I'', i_pa = [''B''], i_d = True,
                  i_lo = True, i_i = None, m3_ack = True, m3_c = False, m3_op = 7, body = [] \<rparr>
        \<and> \<not> m3_ack ?created"
    using v by (simp add: applyOplogDeleteItem_def versionDoc_def mk_def)
  moreover from oplog_delete_creates_acknowledged_tombstone [OF d, of ?cfg "[mk ''C'' [''B''] 3]",
      THEN conjunct1] last2
  have "applyOplogDeleteItem ?cfg ?rnd [mk ''C'' [''B''] 3] (\<lambda>x. None) ?d = Inl PreviousDocNotFound"
    by simp
  ultimately show ?thesis by simp
qed

section \<open>Properties of the merge tree\<close>

lemma mkey_flag [simp]: "map mkey (flag_later_heads i t) = map mkey t"
  by (simp add: flag_later_heads_def mkey_def comp_def)

lemma find_key_None:
  "find (\<lambda>y. h_id y = h_id x \<and> h_v y = h_v x) t = None \<longleftrightarrow> mkey x \<notin> mkey ` set t"
  by (force simp: find_None_iff mkey_def)

lemma tree_write_keys:
  assumes "tree_write sv x t = Inr t'"
  shows "set (map mkey t') = insert (mkey x) (set (map mkey t))"
proof (cases "find (\<lambda>y. h_id y = h_id x \<and> h_v y = h_v x) t")
  case None
  with assms have "t' = flag_later_heads (h_id x) (t @ [x\<lparr> h_i := Some (Suc (length t)) \<rparr>])"
    by (simp add: tree_write_def split: if_splits)
  then have "map mkey t' = map mkey t @ [mkey x]"
    by (simp add: mkey_def)
  then show ?thesis by simp
next
  case (Some e)
  then have "mkey x \<in> mkey ` set t"
    using find_key_None[of x t] by simp
  moreover from Some assms have "t' = t"
    by (simp add: tree_write_def split: if_splits)
  ultimately show ?thesis by auto
qed


lemma tree_write_mono:
  "tree_write sv x t = Inr t' \<Longrightarrow> set (map mkey t) \<subseteq> set (map mkey t')"
  by (drule tree_write_keys) auto

lemma copyTo_loop_keys:
  "copyTo_loop transform first excludeFirst last' excludeLast is_first items d = Inr d'
     \<Longrightarrow> set (map mkey d) \<subseteq> set (map mkey d')"
proof (induction items arbitrary: is_first d)
  case Nil
  then show ?case by simp
next
  case (Cons item items)
  show ?case
  proof (cases "is_first \<and> first = Some (h_v item) \<and> h_v item \<noteq> [] \<and> excludeFirst")
    case True
    then have "copyTo_loop transform first excludeFirst last' excludeLast False items d = Inr d'"
      using Cons.prems by simp
    then show ?thesis by (rule Cons.IH)
  next
    case nf: False
    show ?thesis
    proof (cases "last' = Some (h_v item) \<and> h_v item \<noteq> [] \<and> excludeLast")
      case True
      then have "d' = d" using Cons.prems nf by (simp split: if_splits)
      then show ?thesis by simp
    next
      case nl: False
      have step: "(case transform item of
             Inl err \<Rightarrow> Inl err
           | Inr None \<Rightarrow> copyTo_loop transform first excludeFirst last' excludeLast False items d
           | Inr (Some nitem) \<Rightarrow>
               (case tree_write False nitem d of
                  Inl err \<Rightarrow> Inl err
                | Inr dtree' \<Rightarrow>
                    if last' = Some (h_v item) \<and> h_v item \<noteq> [] then Inr dtree'
                    else copyTo_loop transform first excludeFirst last' excludeLast False items dtree'))
            = Inr d'"
        using Cons.prems nf nl by (simp split: if_splits)
      show ?thesis
      proof (cases "transform item")
        case (Inl e)
        with step show ?thesis by simp
      next
        case (Inr r)
        show ?thesis
        proof (cases r)
          case None
          with step Inr have "copyTo_loop transform first excludeFirst last' excludeLast False items d = Inr d'"
            by simp
          then show ?thesis by (rule Cons.IH)
        next
          case (Some nitem)
          show ?thesis
          proof (cases "tree_write False nitem d")
            case wl: (Inl e)
            with step Inr Some show ?thesis by simp
          next
            case wr: (Inr dtree')
            note sub = tree_write_mono[OF wr]
            show ?thesis
            proof (cases "last' = Some (h_v item) \<and> h_v item \<noteq> []")
              case True
              with step Inr Some wr have "d' = dtree'" by simp
              with sub show ?thesis by simp
            next
              case False
              with step Inr Some wr
              have "copyTo_loop transform first excludeFirst last' excludeLast False items dtree' = Inr d'"
                by simp
              from Cons.IH[OF this] sub show ?thesis by blast
            qed
          qed
        qed
      qed
    qed
  qed
qed

lemma promote_step_Inr:
  assumes "promote_step transform c x st = Inr st'"
  shows "stage_tree st' = tree_del x (stage_tree st)
    \<and> mkey x \<in> set (map mkey (local_tree st'))
    \<and> set (map mkey (local_tree st)) \<subseteq> set (map mkey (local_tree st'))"
proof -
  from assms obtain local1 local2 where
    l1: "set (map mkey (local_tree st)) \<subseteq> set (map mkey local1)"
    and w: "tree_write False x local1 = Inr local2"
    and st': "st' = st\<lparr> local_tree := local2, stage_tree := tree_del x (stage_tree st) \<rparr>"
    by (auto simp: promote_step_def copyTo_def Let_def
             split: option.splits sum.splits if_splits dest: copyTo_loop_keys)
  from tree_write_keys[OF w] l1 st' show ?thesis by auto
qed

lemma promote_loop_Inr:
  "promote_loop transform c items st = Inr st' \<Longrightarrow>
     stage_tree st' = fold tree_del items (stage_tree st)
     \<and> mkey ` set items \<subseteq> set (map mkey (local_tree st'))
     \<and> set (map mkey (local_tree st)) \<subseteq> set (map mkey (local_tree st'))"
proof (induction items arbitrary: st)
  case Nil
  then show ?case by simp
next
  case (Cons x items)
  from Cons.prems obtain st1 where s: "promote_step transform c x st = Inr st1"
    and l: "promote_loop transform c items st1 = Inr st'"
    by (auto split: sum.splits)
  from promote_step_Inr[OF s] have
    a1: "stage_tree st1 = tree_del x (stage_tree st)"
    and a2: "mkey x \<in> set (map mkey (local_tree st1))"
    and a3: "set (map mkey (local_tree st)) \<subseteq> set (map mkey (local_tree st1))"
    by blast+
  from Cons.IH[OF l] have
    b1: "stage_tree st' = fold tree_del items (stage_tree st1)"
    and b2: "mkey ` set items \<subseteq> set (map mkey (local_tree st'))"
    and b3: "set (map mkey (local_tree st1)) \<subseteq> set (map mkey (local_tree st'))"
    by blast+
  from a1 b1 have "stage_tree st' = fold tree_del (x # items) (stage_tree st)" by simp
  moreover from a2 b2 b3 have "mkey ` set (x # items) \<subseteq> set (map mkey (local_tree st'))" by auto
  moreover from a3 b3 have "set (map mkey (local_tree st)) \<subseteq> set (map mkey (local_tree st'))" by blast
  ultimately show ?case by blast
qed

lemma fold_tree_del:
  "fold tree_del items t = filter (\<lambda>y. mkey y \<notin> mkey ` set items) t"
proof (induction items arbitrary: t)
  case Nil
  then show ?case by simp
next
  case (Cons x items)
  have "tree_del x t = filter (\<lambda>y. mkey y \<noteq> mkey x) t"
    by (simp add: tree_del_def mkey_def)
  then show ?case by (simp add: Cons.IH)
qed

subsection \<open>Confirmations\<close>

text \<open>
  C5 (as amended). A local write whose version is in the stage with an equal body is not
  checked against the order of earlier confirmations: it runs the promotion of the staged
  items of its id, in stage insertion order, up to and including that version. When
  that succeeds, exactly these items are removed from the stage and each of them is in
  the local tree, whether or not earlier staged versions were confirmed before.
\<close>

theorem confirmation_promotes_staged_items:
  assumes "\<not> invalidLocalHeader item" and "h_pa item = None"
    and "getByVersion (stage_tree st) (h_v item) = Some existing"
    and "doc existing = doc item"
  shows "localWrite invalidLocalHeader transform sha256 serialize vSize item st =
           promote_loop transform (h_v existing)
             (iterateInsertionOrder (stage_tree st) (Some (h_id existing)) None False
                (Some (h_v existing)) False) st
    \<and> (\<forall>st'. localWrite invalidLocalHeader transform sha256 serialize vSize item st = Inr st' \<longrightarrow>
          stage_tree st' =
            filter (\<lambda>y. mkey y \<notin> mkey ` set (iterateInsertionOrder (stage_tree st)
                             (Some (h_id existing)) None False (Some (h_v existing)) False))
              (stage_tree st)
          \<and> mkey ` set (iterateInsertionOrder (stage_tree st) (Some (h_id existing)) None False
                          (Some (h_v existing)) False)
              \<subseteq> mkey ` set (local_tree st'))"
proof -
  let ?moved = "iterateInsertionOrder (stage_tree st) (Some (h_id existing)) None False
                  (Some (h_v existing)) False"
  have eq: "localWrite invalidLocalHeader transform sha256 serialize vSize item st =
              promote_loop transform (h_v existing) ?moved st"
    using assms by (simp add: localWrite_def)
  moreover have "stage_tree st' = filter (\<lambda>y. mkey y \<notin> mkey ` set ?moved) (stage_tree st)
          \<and> mkey ` set ?moved \<subseteq> mkey ` set (local_tree st')"
    if "localWrite invalidLocalHeader transform sha256 serialize vSize item st = Inr st'" for st'
  proof -
    from that eq have "promote_loop transform (h_v existing) ?moved st = Inr st'" by simp
    from promote_loop_Inr[OF this] show ?thesis
      by (simp add: fold_tree_del)
  qed
  ultimately show ?thesis by blast
qed

theorem confirmation_promotes_staged_items_witness:
  "localWrite (\<lambda>x. False) (\<lambda>x. Inr (Some x)) (\<lambda>bs. bs) (\<lambda>x. []) 6 (confirm ''Y'' 2) exMT
     = Inr \<lparr> local_tree = [mi ''X'' [] 1, mi ''Y'' [''X''] 2], stage_tree = [mi ''Z'' [''Y''] 3],
             pe_trees = [(''P'', exP)], handler_calls = [] \<rparr>
   \<and> stage_tree \<lparr> local_tree = [mi ''X'' [] 1, mi ''Y'' [''X''] 2], stage_tree = [mi ''Z'' [''Y''] 3],
             pe_trees = [(''P'', exP)], handler_calls = [] \<rparr>
     = filter (\<lambda>y. mkey y \<notin> mkey ` set [mi ''X'' [] 1, mi ''Y'' [''X''] 2]) (stage_tree exMT)"
proof -
  have a: "\<not> (\<lambda>x. False) (confirm ''Y'' 2)" and b: "h_pa (confirm ''Y'' 2) = None"
    and c: "getByVersion (stage_tree exMT) (h_v (confirm ''Y'' 2)) = Some (mi ''Y'' [''X''] 2)"
    and d: "doc (mi ''Y'' [''X''] 2) = doc (confirm ''Y'' 2)"
    by (simp_all add: confirm_def exMT_def exP_def mi_def getByVersion_def)
  have moved: "iterateInsertionOrder (stage_tree exMT) (Some (h_id (mi ''Y'' [''X''] 2))) None False
                  (Some (h_v (mi ''Y'' [''X''] 2))) False = [mi ''X'' [] 1, mi ''Y'' [''X''] 2]"
    by (simp add: iterateInsertionOrder_def from_first_def up_to_last_def exMT_def exP_def mi_def)
  have run: "localWrite (\<lambda>x. False) (\<lambda>x. Inr (Some x)) (\<lambda>bs. bs) (\<lambda>x. []) 6 (confirm ''Y'' 2) exMT
     = Inr \<lparr> local_tree = [mi ''X'' [] 1, mi ''Y'' [''X''] 2], stage_tree = [mi ''Z'' [''Y''] 3],
             pe_trees = [(''P'', exP)], handler_calls = [] \<rparr>"
    by code_simp
  from confirmation_promotes_staged_items [OF a b c d, of "\<lambda>x. Inr (Some x)" "\<lambda>bs. bs" "\<lambda>x. []" 6]
    run moved
  show ?thesis by simp
qed

text \<open>
  C5 as stated fails: \<open>X\<close>, \<open>Y\<close> and \<open>Z\<close> are staged in this order and nothing is
  confirmed yet. The local write that confirms \<open>Y\<close> is not rejected: it succeeds and
  promotes \<open>X\<close> and \<open>Y\<close> to the local tree.
\<close>

theorem out_of_order_confirmation_counterexample:
  "map h_v (stage_tree exMT) = [''X'', ''Y'', ''Z''] \<and> local_tree exMT = []
   \<and> localWrite (\<lambda>x. False) (\<lambda>x. Inr (Some x)) (\<lambda>bs. bs) (\<lambda>x. []) 6 (confirm ''Y'' 2) exMT
     = Inr \<lparr> local_tree = [mi ''X'' [] 1, mi ''Y'' [''X''] 2], stage_tree = [mi ''Z'' [''Y''] 3],
             pe_trees = [(''P'', exP)], handler_calls = [] \<rparr>"
  by code_simp

subsection \<open>Merge conflicts\<close>



subsection \<open>Versions of merges\<close>




section \<open>The reader on the test history\<close>

text \<open>
  The scenarios of the reader's tests: with the filter \<open>baz = qux\<close> the reader pushes
  \<open>A{}\<close>, \<open>D{A}\<close>, \<open>G{A}\<close>; with a hook that filters out \<open>F\<close> and the offset \<open>E\<close> it
  pushes \<open>E{B}\<close> and \<open>G{E,C}\<close>. The hooks of the tests hand back the object they were
  given. With hooks that hand back a copy, the pushed items keep the parents they have
  in the collection.
\<close>

lemma reader_filter_example:
  "reader \<lparr> r_localPerspective = ''I'', r_offset = ''A'', r_matches = has_attr ''baz'' ''qux'',
            r_runHooks = (\<lambda>x. Inr (SameId x)) \<rparr> exDAG
     = Inr [pushed ''A'' [] [(''baz'', ''qux'')], pushed ''D'' [''A''] [(''baz'', ''qux'')],
            pushed ''G'' [''A''] [(''baz'', ''qux'')]]"
  by code_simp

lemma reader_hook_example:
  "reader \<lparr> r_localPerspective = ''I'', r_offset = ''E'', r_matches = (\<lambda>x. True),
            r_runHooks = (\<lambda>x. if i_v x = ''F'' then Inr Filtered else Inr (SameId x)) \<rparr> exDAG
     = Inr [pushed ''E'' [''B''] [], pushed ''G'' [''E'', ''C''] [(''baz'', ''qux'')]]"
  by code_simp

lemma reader_own_id_example:
  "reader \<lparr> r_localPerspective = ''I'', r_offset = ''A'', r_matches = has_attr ''baz'' ''qux'',
            r_runHooks = (\<lambda>x. Inr (OwnId x)) \<rparr> exDAG
     = Inr [pushed ''A'' [] [(''baz'', ''qux'')], pushed ''D'' [''C''] [(''baz'', ''qux'')],
            pushed ''G'' [''F''] [(''baz'', ''qux'')]]"
  by code_simp

text \<open>
  C3. The parents that the reader reports are meant to be the last pushed ancestors, so
  that the pushed items form a connected graph. With a hook that filters out \<open>B\<close>, which
  has the two children \<open>C\<close> and \<open>E\<close>, this fails: \<open>C\<close> takes over the entry of \<open>B\<close> and
  is pushed with the parent \<open>A\<close>; for \<open>E\<close> the entry of \<open>B\<close> is gone, the walk back from
  \<open>B\<close> tests the filter only, and \<open>E\<close> is pushed with the parent \<open>B\<close>, which was never
  pushed.
\<close>

theorem reader_hook_dropped_fork:
  "reader \<lparr> r_localPerspective = ''I'', r_offset = [], r_matches = (\<lambda>x. True),
            r_runHooks = (\<lambda>x. if i_v x = ''B'' then Inr Filtered else Inr (SameId x)) \<rparr> exDAG
     = Inr [pushed ''A'' [] [(''baz'', ''qux'')],
            pushed ''C'' [''A''] [(''baz'', ''mux''), (''foo'', ''bar'')],
            pushed ''D'' [''C''] [(''baz'', ''qux'')],
            pushed ''E'' [''B''] [],
            pushed ''F'' [''E'', ''C''] [(''foo'', ''bar'')],
            pushed ''G'' [''F''] [(''baz'', ''qux'')]]"
  by code_simp

end
